theory Spec2Isabelle
  imports Complex_Main
begin

section \<open>Numeric arrays\<close>

text \<open>
  The models compute on NumPy arrays of floats. Numbers are embedded as \<^typ>\<open>real\<close>: the
  arithmetic is exact, and IEEE rounding is not part of the embedding. Where the source can
  produce a value that is no real number (a division by a zero weight sum, the contents of
  an array that was allocated and never written), the embedding makes that outcome explicit.
  A one-dimensional array is a list, a two-dimensional array a list of rows.
\<close>

type_synonym vec = "real list"
type_synonym matrix = "real list list"

definition dot :: "vec \<Rightarrow> vec \<Rightarrow> real" where
  "dot xs ys = sum_list (map2 (*) xs ys)"

text \<open>\<^verbatim>\<open>np.linalg.norm(row)\<close>: the Euclidean norm.\<close>

definition linalg_norm :: "vec \<Rightarrow> real" where
  "linalg_norm xs = sqrt (dot xs xs)"

text \<open>\<^verbatim>\<open>np.clip(x, lo, hi)\<close> is \<^verbatim>\<open>minimum(maximum(x, lo), hi)\<close>.\<close>

definition clip :: "real \<Rightarrow> real \<Rightarrow> real \<Rightarrow> real" where
  "clip x lo hi = min (max x lo) hi"

text \<open>
  \<^verbatim>\<open>np.argsort(xs)\<close>: the indices of \<open>xs\<close> in ascending order of value. Equal values are
  kept in index order (a stable sort, which is what NumPy does on the short arrays of the
  examples below); the general theorems do not depend on the order of ties unless they say so.
  \<^verbatim>\<open>np.argsort(xs)[::-1]\<close> is the reversed list.
\<close>

definition argsort :: "vec \<Rightarrow> nat list" where
  "argsort xs = sort_key (\<lambda>i. xs ! i) [0..<length xs]"

definition argsort_desc :: "vec \<Rightarrow> nat list" where
  "argsort_desc xs = rev (argsort xs)"

text \<open>\<^verbatim>\<open>A @ A.T\<close>: the matrix of the dot products of the rows of \<open>A\<close>.\<close>

definition gram :: "matrix \<Rightarrow> matrix" where
  "gram A = map (\<lambda>u. map (\<lambda>v. dot u v) A) A"

text \<open>
  Row normalisation, as \<^verbatim>\<open>UserBasedModel._compute_user_similarity\<close> writes it
  (\<^verbatim>\<open>norms = np.where(norms > 0, norms, 1); normalized = centered / norms\<close>) and as
  \<^verbatim>\<open>Vectorizer.compute_cosine_similarity\<close> and scikit-learn's \<^verbatim>\<open>cosine_similarity\<close> do it
  (\<^verbatim>\<open>normalize(X, norm='l2')\<close> leaves a zero row as it is).
\<close>

definition l2_normalize :: "vec \<Rightarrow> vec" where
  "l2_normalize r =
     (let norms = linalg_norm r;
          norms' = (if norms > 0 then norms else 1)
      in map (\<lambda>x. x / norms') r)"

definition cosine_similarity :: "matrix \<Rightarrow> matrix" where
  "cosine_similarity X = gram (map l2_normalize X)"

text \<open>\<^verbatim>\<open>np.fill_diagonal(M, v)\<close>.\<close>

definition fill_diagonal :: "matrix \<Rightarrow> real \<Rightarrow> matrix" where
  "fill_diagonal M v = map (\<lambda>(i, row). row[i := v]) (enumerate 0 M)"

text \<open>
  \<^verbatim>\<open>sparse.csr_matrix((data, (rows, cols)), shape=(n_rows, n_cols)).toarray()\<close>: a dense
  array that holds at \<open>(i, j)\<close> the sum of the data entries whose coordinates are \<open>(i, j)\<close>,
  and zero where there is none.
\<close>

definition csr_toarray :: "nat \<Rightarrow> nat \<Rightarrow> (nat \<times> nat \<times> real) list \<Rightarrow> matrix" where
  "csr_toarray n_rows n_cols entries =
     map (\<lambda>i. map (\<lambda>j. sum_list (map (\<lambda>(a, b, v). v)
                                   (filter (\<lambda>(a, b, v). a = i \<and> b = j) entries)))
                  [0..<n_cols])
         [0..<n_rows]"

text \<open>
  The loop \<^verbatim>\<open>for idx, key in enumerate(keys): to_idx[key] = idx; to_key[idx] = key\<close>
  writes into the two dictionaries the instance already holds.
\<close>

definition assign_to_idx :: "('k \<rightharpoonup> nat) \<Rightarrow> 'k list \<Rightarrow> ('k \<rightharpoonup> nat)" where
  "assign_to_idx d keys = fold (\<lambda>(idx, key) d. d(key \<mapsto> idx)) (enumerate 0 keys) d"

definition assign_from_idx :: "(nat \<rightharpoonup> 'k) \<Rightarrow> 'k list \<Rightarrow> (nat \<rightharpoonup> 'k)" where
  "assign_from_idx d keys = fold (\<lambda>(idx, key) d. d(idx \<mapsto> key)) (enumerate 0 keys) d"

section \<open>Catalog and rating data\<close>

text \<open>
  The columns of a row that every result dictionary repeats, a catalog row, an entry of a
  similar-movies result and an entry of a recommendation result.
\<close>

record info =
  movieId :: int
  title :: string
  genres :: "string list"
  avgRating :: real

record movie = info +
  ratingCount :: nat

record similar = info +
  similarity :: real

record recommendation = info +
  score :: real
  method_tag :: string

text \<open>The movies dataframe: its rows in order, and whether it has a \<^verbatim>\<open>ratingCount\<close> column.\<close>

record movies_df =
  rows :: "movie list"
  has_ratingCount :: bool

text \<open>A row of the ratings dataframe: \<^verbatim>\<open>(userId, movieId, rating)\<close>.\<close>

type_synonym rating_row = "int \<times> int \<times> real"

definition r_userId :: "rating_row \<Rightarrow> int" where "r_userId r = fst r"
definition r_movieId :: "rating_row \<Rightarrow> int" where "r_movieId r = fst (snd r)"
definition r_rating :: "rating_row \<Rightarrow> real" where "r_rating r = snd (snd r)"

text \<open>An entry of \<^verbatim>\<open>user_rated_movies\<close>: \<^verbatim>\<open>{'movieId': ..., 'rating': ...}\<close>.\<close>

type_synonym rated = "int \<times> real"

datatype error = NotFitted | KeyError | IndexError | ZeroDivisionError

text \<open>Python's \<^verbatim>\<open>str\<close> of an integer, for the default title \<^verbatim>\<open>f'Movie {movie_id}'\<close>.\<close>

fun str_nat :: "nat \<Rightarrow> string" where
  "str_nat n =
     (if n < 10 then [char_of (48 + n)]
      else str_nat (n div 10) @ [char_of (48 + n mod 10)])"

definition str_int :: "int \<Rightarrow> string" where
  "str_int i = (if i < 0 then CHR ''-'' # str_nat (nat (- i)) else str_nat (nat i))"

text \<open>\<^verbatim>\<open>_get_movie_info\<close> of the item-based and the user-based model (the same code).\<close>

definition get_movie_info :: "movies_df option \<Rightarrow> int \<Rightarrow> info" where
  "get_movie_info df movie_id =
     (let info = \<lparr>movieId = movie_id, title = ''Movie '' @ str_int movie_id, genres = [],
                  avgRating = 0\<rparr>
      in case df of
           None \<Rightarrow> info
         | Some d \<Rightarrow>
             (case filter (\<lambda>r. movieId r = movie_id) (rows d) of
                [] \<Rightarrow> info
              | row # _ \<Rightarrow> info\<lparr>title := title row, genres := genres row,
                                avgRating := avgRating row\<rparr>))"

text \<open>
  A descending \<^verbatim>\<open>sort_values\<close> and Python's \<^verbatim>\<open>list.sort(key=..., reverse=True)\<close>: equal
  keys keep their order.
\<close>

definition sort_desc :: "('a \<Rightarrow> real) \<Rightarrow> 'a list \<Rightarrow> 'a list" where
  "sort_desc key xs = sort_key (\<lambda>x. - key x) xs"

text \<open>
  \<^verbatim>\<open>_get_popular_items\<close> of the item-based and the user-based model (the same code): the
  catalog by descending average rating, restricted to the movies of the fitted index.
\<close>

fun popular_loop :: "(int \<rightharpoonup> nat) \<Rightarrow> nat \<Rightarrow> int set \<Rightarrow> movie list \<Rightarrow>
    recommendation list \<Rightarrow> recommendation list" where
  "popular_loop to_idx n exclude [] results = results"
| "popular_loop to_idx n exclude (row # rest) results =
     (if movieId row \<in> exclude then popular_loop to_idx n exclude rest results
      else if to_idx (movieId row) = None then popular_loop to_idx n exclude rest results
      else
        (let results' = results @
               [\<lparr>movieId = movieId row, title = title row, genres = genres row,
                 avgRating = avgRating row, score = avgRating row, method_tag = ''popular''\<rparr>]
         in if length results' \<ge> n then results'
            else popular_loop to_idx n exclude rest results'))"

definition get_popular_items :: "movies_df option \<Rightarrow> (int \<rightharpoonup> nat) \<Rightarrow> nat \<Rightarrow> int set \<Rightarrow>
    recommendation list" where
  "get_popular_items df to_idx n exclude =
     (case df of
        Some d \<Rightarrow> popular_loop to_idx n exclude (sort_desc avgRating (rows d)) []
      | None \<Rightarrow> [])"

section \<open>User-based collaborative filtering\<close>

record user_model =
  ub_k :: nat
  min_common :: nat
  ub_ratings_df :: "rating_row list"
  ub_movies_df :: "movies_df option"
  user_similarity :: matrix
  ub_user_item_matrix :: matrix
  user_means :: vec
  ub_user_ids :: "int list"
  ub_movie_ids :: "int list"
  ub_user_to_idx :: "int \<rightharpoonup> nat"
  ub_idx_to_user :: "nat \<rightharpoonup> int"
  ub_movie_to_idx :: "int \<rightharpoonup> nat"
  ub_idx_to_movie :: "nat \<rightharpoonup> int"
  ub_is_fitted :: bool

text \<open>\<^verbatim>\<open>UserBasedModel.__init__(k, min_common)\<close>; an array that is \<^verbatim>\<open>None\<close> is empty here.\<close>

definition ub_init :: "nat \<Rightarrow> nat \<Rightarrow> user_model" where
  "ub_init k mc =
     \<lparr>ub_k = k, min_common = mc, ub_ratings_df = [], ub_movies_df = None,
      user_similarity = [], ub_user_item_matrix = [], user_means = [],
      ub_user_ids = [], ub_movie_ids = [],
      ub_user_to_idx = Map.empty, ub_idx_to_user = Map.empty,
      ub_movie_to_idx = Map.empty, ub_idx_to_movie = Map.empty,
      ub_is_fitted = False\<rparr>"

text \<open>
  \<^verbatim>\<open>_compute_user_means\<close>: the sum of a row over the number of its positive entries, and
  3.0 (the \<^verbatim>\<open>out\<close> array) where there is no positive entry.
\<close>

definition compute_user_means :: "matrix \<Rightarrow> vec" where
  "compute_user_means M =
     map (\<lambda>row. (let total = sum_list row; counts = length (filter (\<lambda>x. x > 0) row)
                in if counts > 0 then total / real counts else 3)) M"

text \<open>\<^verbatim>\<open>_compute_user_similarity\<close>.\<close>

definition compute_user_similarity :: "matrix \<Rightarrow> vec \<Rightarrow> matrix" where
  "compute_user_similarity M means =
     (let centered = map2 (\<lambda>row mean. map (\<lambda>x. if x > 0 then x - mean else 0) row) M means;
          normalized = map l2_normalize centered
      in fill_diagonal (gram normalized) 0)"

text \<open>
  The rating matrix of \<^verbatim>\<open>fit\<close>: every row of the dataframe is placed at the indices that
  the two dictionaries give for its user and its movie. \<^verbatim>\<open>fit\<close> has just written the
  identifiers of all these rows into the dictionaries, so every one of them is found.
\<close>

definition rating_matrix :: "(int \<rightharpoonup> nat) \<Rightarrow> (int \<rightharpoonup> nat) \<Rightarrow> nat \<Rightarrow> nat \<Rightarrow>
    rating_row list \<Rightarrow> matrix" where
  "rating_matrix user_to_idx movie_to_idx n_users n_items df =
     csr_toarray n_users n_items
       (map (\<lambda>r. (the (user_to_idx (r_userId r)), the (movie_to_idx (r_movieId r)), r_rating r))
            df)"

text \<open>\<^verbatim>\<open>sorted(column.unique())\<close>.\<close>

definition sorted_unique :: "int list \<Rightarrow> int list" where
  "sorted_unique column = sort (remdups column)"

text \<open>\<^verbatim>\<open>UserBasedModel.fit\<close>. The parameter \<^verbatim>\<open>min_common\<close> is not read.\<close>

definition ub_fit :: "user_model \<Rightarrow> rating_row list \<Rightarrow> movies_df option \<Rightarrow> user_model" where
  "ub_fit m ratings_df movies =
     (let user_ids = sorted_unique (map r_userId ratings_df);
          movie_ids = sorted_unique (map r_movieId ratings_df);
          user_to_idx = assign_to_idx (ub_user_to_idx m) user_ids;
          idx_to_user = assign_from_idx (ub_idx_to_user m) user_ids;
          movie_to_idx = assign_to_idx (ub_movie_to_idx m) movie_ids;
          idx_to_movie = assign_from_idx (ub_idx_to_movie m) movie_ids;
          M = rating_matrix user_to_idx movie_to_idx (length user_ids) (length movie_ids)
                ratings_df;
          means = compute_user_means M
      in m\<lparr>ub_ratings_df := ratings_df, ub_movies_df := movies,
            ub_user_ids := user_ids, ub_movie_ids := movie_ids,
            ub_user_to_idx := user_to_idx, ub_idx_to_user := idx_to_user,
            ub_movie_to_idx := movie_to_idx, ub_idx_to_movie := idx_to_movie,
            ub_user_item_matrix := M, user_means := means,
            user_similarity := compute_user_similarity M means,
            ub_is_fitted := True\<rparr>)"

text \<open>
  NumPy indexing with an index out of range raises \<^verbatim>\<open>IndexError\<close>; a dictionary read of
  a missing key raises \<^verbatim>\<open>KeyError\<close>. An index that comes out of one of the dictionaries
  is checked where it is used. The arrays of one model are assigned together by \<^verbatim>\<open>fit\<close>,
  so an index that is computed from one of them is within the bounds of the others.
\<close>

definition bind :: "error + 'a \<Rightarrow> ('a \<Rightarrow> error + 'b) \<Rightarrow> error + 'b" where
  "bind r f = (case r of Inl e \<Rightarrow> Inl e | Inr x \<Rightarrow> f x)"

definition nth_row :: "'a list \<Rightarrow> nat \<Rightarrow> error + 'a" where
  "nth_row xs i = (if i < length xs then Inr (xs ! i) else Inl IndexError)"

definition lookup :: "('k \<rightharpoonup> 'v) \<Rightarrow> 'k \<Rightarrow> error + 'v" where
  "lookup d key = (case d key of None \<Rightarrow> Inl KeyError | Some v \<Rightarrow> Inr v)"

text \<open>\<^verbatim>\<open>M[:, j]\<close>: a column of a two-dimensional array.\<close>

definition get_column :: "matrix \<Rightarrow> nat \<Rightarrow> error + vec" where
  "get_column M j =
     (if \<forall>row \<in> set M. j < length row then Inr (map (\<lambda>row. row ! j) M)
      else Inl IndexError)"

text \<open>\<^verbatim>\<open>np.where(xs > 0)[0]\<close>: the indices of the positive entries, ascending.\<close>

definition where_positive :: "vec \<Rightarrow> nat list" where
  "where_positive xs = filter (\<lambda>i. xs ! i > 0) [0..<length xs]"

text \<open>
  A loop that appends a result for some of the elements of a list and skips the others;
  an exception ends it.
\<close>

fun collect :: "('a \<Rightarrow> error + 'b option) \<Rightarrow> 'a list \<Rightarrow> error + 'b list" where
  "collect f [] = Inr []"
| "collect f (x # xs) =
     bind (f x) (\<lambda>r. bind (collect f xs)
       (\<lambda>rs. Inr (case r of None \<Rightarrow> rs | Some y \<Rightarrow> y # rs)))"

text \<open>\<^verbatim>\<open>exclude = exclude or set()\<close>.\<close>

definition or_empty :: "int set option \<Rightarrow> int set" where
  "or_empty exclude = (case exclude of None \<Rightarrow> {} | Some s \<Rightarrow> s)"

text \<open>
  The neighbours of a prediction: when there are more than \<open>k\<close> candidates, the \<open>k\<close> with
  the highest similarity (\<^verbatim>\<open>np.argsort(similarities)[::-1][:k]\<close>), else all of them; each
  is a pair of an index and its similarity.
\<close>

definition top_k :: "nat \<Rightarrow> nat list \<Rightarrow> vec \<Rightarrow> (nat \<times> real) list" where
  "top_k k indices similarities =
     (if length indices > k
      then map (\<lambda>p. (indices ! p, similarities ! p)) (take k (argsort_desc similarities))
      else zip indices similarities)"

text \<open>\<^verbatim>\<open>np.sum(weights * values) / np.sum(weights)\<close>.\<close>

definition weighted_average :: "vec \<Rightarrow> vec \<Rightarrow> real" where
  "weighted_average weights vals = sum_list (map2 (*) weights vals) / sum_list weights"

text \<open>
  \<^verbatim>\<open>UserBasedModel.predict_rating\<close>. The value \<open>None\<close> is Python's \<^verbatim>\<open>None\<close>.
\<close>

definition ub_predict_known :: "user_model \<Rightarrow> nat \<Rightarrow> nat \<Rightarrow> error + real option" where
  "ub_predict_known m user_idx movie_idx =
     bind (get_column (ub_user_item_matrix m) movie_idx) (\<lambda>column.
       (let rated_indices = where_positive column
        in if length rated_indices = 0
           then bind (nth_row (user_means m) user_idx) (\<lambda>user_mean. Inr (Some user_mean))
           else
             bind (nth_row (user_similarity m) user_idx) (\<lambda>sim_row.
               (let similarities = map (\<lambda>i. sim_row ! i) rated_indices;
                    neighbors = filter (\<lambda>(i, s). s > 0)
                                  (top_k (ub_k m) rated_indices similarities)
                in if neighbors = []
                   then bind (nth_row (user_means m) user_idx) (\<lambda>user_mean. Inr (Some user_mean))
                   else
                     (let weights = map snd neighbors;
                          neighbor_indices = map fst neighbors;
                          ratings = map (\<lambda>i. column ! i) neighbor_indices;
                          neighbor_means = map (\<lambda>i. user_means m ! i) neighbor_indices;
                          deviations = map2 (-) ratings neighbor_means;
                          predicted = user_means m ! user_idx
                                      + weighted_average weights deviations
                      in Inr (Some (clip predicted 0.5 5.0)))))))"

definition ub_predict_rating :: "user_model \<Rightarrow> int \<Rightarrow> int \<Rightarrow> error + real option" where
  "ub_predict_rating m user_id movie_id =
     (if \<not> ub_is_fitted m then Inr None
      else if ub_user_to_idx m user_id = None \<or> ub_movie_to_idx m movie_id = None
        then Inr None
      else ub_predict_known m (the (ub_user_to_idx m user_id))
             (the (ub_movie_to_idx m movie_id)))"

text \<open>\<^verbatim>\<open>UserBasedModel.get_similar_users\<close>.\<close>

definition ub_get_similar_users :: "user_model \<Rightarrow> int \<Rightarrow> nat \<Rightarrow> error + (int \<times> real) list" where
  "ub_get_similar_users m user_id n =
     (if \<not> ub_is_fitted m \<or> ub_user_to_idx m user_id = None then Inr []
      else
        bind (nth_row (user_similarity m) (the (ub_user_to_idx m user_id))) (\<lambda>similarities.
          collect (\<lambda>sim_idx. bind (lookup (ub_idx_to_user m) sim_idx)
                      (\<lambda>sim_user_id. Inr (Some (sim_user_id, similarities ! sim_idx))))
            (take n (argsort_desc similarities))))"

text \<open>The last lines of both \<^verbatim>\<open>recommend\<close> methods: sort by prediction, keep \<open>n\<close>.\<close>

definition top_predictions :: "movies_df option \<Rightarrow> string \<Rightarrow> nat \<Rightarrow> (int \<times> real) list \<Rightarrow>
    recommendation list" where
  "top_predictions df tag n predictions =
     map (\<lambda>(movie_id, sc). info.extend (get_movie_info df movie_id)
                               (recommendation.fields sc tag))
       (take n (sort_desc snd predictions))"

text \<open>\<^verbatim>\<open>UserBasedModel.recommend\<close>.\<close>

definition ub_predict_for :: "user_model \<Rightarrow> nat \<Rightarrow> int set \<Rightarrow> (nat \<times> real) list \<Rightarrow> nat \<Rightarrow>
    error + (int \<times> real) option" where
  "ub_predict_for m user_idx exclude similar movie_idx =
     bind (lookup (ub_idx_to_movie m) movie_idx) (\<lambda>movie_id.
       if movie_id \<in> exclude then Inr None
       else
         (let rated = filter (\<lambda>(i, s). ub_user_item_matrix m ! i ! movie_idx > 0) similar
          in if rated = [] then Inr None
             else
               (let weights = map snd rated;
                    ratings = map (\<lambda>(i, s). ub_user_item_matrix m ! i ! movie_idx) rated;
                    neighbor_means = map (\<lambda>(i, s). user_means m ! i) rated;
                    deviations = map2 (-) ratings neighbor_means;
                    pred = user_means m ! user_idx + weighted_average weights deviations
                in Inr (Some (movie_id, clip pred 0.5 5.0)))))"

definition ub_recommend :: "user_model \<Rightarrow> int \<Rightarrow> nat \<Rightarrow> int set option \<Rightarrow>
    error + recommendation list" where
  "ub_recommend m user_id n exclude =
     (if \<not> ub_is_fitted m then Inr []
      else if ub_user_to_idx m user_id = None
        then Inr (get_popular_items (ub_movies_df m) (ub_movie_to_idx m) n (or_empty exclude))
      else
        (let user_idx = the (ub_user_to_idx m user_id)
         in bind (nth_row (ub_user_item_matrix m) user_idx) (\<lambda>user_ratings.
            bind (collect (\<lambda>idx. map_sum id Some (lookup (ub_idx_to_movie m) idx))
                    (where_positive user_ratings)) (\<lambda>rated_movie_ids.
            bind (nth_row (user_similarity m) user_idx) (\<lambda>sim_row.
              (let exclude' = or_empty exclude \<union> set rated_movie_ids;
                   similar_indices = take (ub_k m) (argsort_desc sim_row);
                   similar = filter (\<lambda>(i, s). s > 0)
                               (map (\<lambda>i. (i, sim_row ! i)) similar_indices)
               in if similar = []
                  then Inr (get_popular_items (ub_movies_df m) (ub_movie_to_idx m) n exclude')
                  else
                    bind (collect (ub_predict_for m user_idx exclude' similar)
                            [0..<length (ub_movie_ids m)]) (\<lambda>predictions.
                      Inr (top_predictions (ub_movies_df m) ''user_based'' n
                             predictions))))))))"

section \<open>Item-based collaborative filtering\<close>

record item_model =
  ib_k :: nat
  min_ratings :: nat
  ib_ratings_df :: "rating_row list"
  ib_movies_df :: "movies_df option"
  item_similarity :: matrix
  ib_user_item_matrix :: matrix
  ib_user_ids :: "int list"
  ib_movie_ids :: "int list"
  ib_movie_to_idx :: "int \<rightharpoonup> nat"
  ib_idx_to_movie :: "nat \<rightharpoonup> int"
  ib_user_to_idx :: "int \<rightharpoonup> nat"
  ib_idx_to_user :: "nat \<rightharpoonup> int"
  ib_is_fitted :: bool

text \<open>\<^verbatim>\<open>ItemBasedModel.__init__(k, min_ratings)\<close>.\<close>

definition ib_init :: "nat \<Rightarrow> nat \<Rightarrow> item_model" where
  "ib_init k mr =
     \<lparr>ib_k = k, min_ratings = mr, ib_ratings_df = [], ib_movies_df = None,
      item_similarity = [], ib_user_item_matrix = [],
      ib_user_ids = [], ib_movie_ids = [],
      ib_movie_to_idx = Map.empty, ib_idx_to_movie = Map.empty,
      ib_user_to_idx = Map.empty, ib_idx_to_user = Map.empty,
      ib_is_fitted = False\<rparr>"

text \<open>
  \<^verbatim>\<open>_compute_item_similarity\<close>. The item-user matrix is the transpose of the rating matrix.
  A zero entry becomes NaN, \<^verbatim>\<open>np.nanmean\<close> is the mean of the other entries of the row, and
  \<^verbatim>\<open>np.nan_to_num\<close> of the centred row maps each NaN back to zero.
\<close>

definition center_item_row :: "vec \<Rightarrow> vec" where
  "center_item_row row =
     (let rated = filter (\<lambda>x. x \<noteq> 0) row;
          item_mean = sum_list rated / real (length rated)
      in map (\<lambda>x. if x = 0 then 0 else x - item_mean) row)"

definition compute_item_similarity :: "matrix \<Rightarrow> nat \<Rightarrow> matrix" where
  "compute_item_similarity M n_items =
     (let item_user_matrix = map (\<lambda>j. map (\<lambda>row. row ! j) M) [0..<n_items];
          item_user_centered = map center_item_row item_user_matrix
      in fill_diagonal (cosine_similarity item_user_centered) 0)"

text \<open>
  The first lines of \<^verbatim>\<open>ItemBasedModel.fit\<close>: the rows of the movies that have at least
  \<^verbatim>\<open>min_ratings\<close> rows.
\<close>

definition filter_min_ratings :: "nat \<Rightarrow> rating_row list \<Rightarrow> rating_row list" where
  "filter_min_ratings mr ratings_df =
     (let item_counts = (\<lambda>mid. length (filter (\<lambda>r. r_movieId r = mid) ratings_df))
      in filter (\<lambda>r. item_counts (r_movieId r) \<ge> mr) ratings_df)"

text \<open>\<^verbatim>\<open>ItemBasedModel.fit\<close>.\<close>

definition ib_fit :: "item_model \<Rightarrow> rating_row list \<Rightarrow> movies_df option \<Rightarrow> item_model" where
  "ib_fit m ratings_df movies =
     (let filtered_df = filter_min_ratings (min_ratings m) ratings_df;
          user_ids = sorted_unique (map r_userId filtered_df);
          movie_ids = sorted_unique (map r_movieId filtered_df);
          user_to_idx = assign_to_idx (ib_user_to_idx m) user_ids;
          idx_to_user = assign_from_idx (ib_idx_to_user m) user_ids;
          movie_to_idx = assign_to_idx (ib_movie_to_idx m) movie_ids;
          idx_to_movie = assign_from_idx (ib_idx_to_movie m) movie_ids;
          M = rating_matrix user_to_idx movie_to_idx (length user_ids) (length movie_ids)
                filtered_df
      in m\<lparr>ib_ratings_df := ratings_df, ib_movies_df := movies,
            ib_user_ids := user_ids, ib_movie_ids := movie_ids,
            ib_user_to_idx := user_to_idx, ib_idx_to_user := idx_to_user,
            ib_movie_to_idx := movie_to_idx, ib_idx_to_movie := idx_to_movie,
            ib_user_item_matrix := M,
            item_similarity := compute_item_similarity M (length movie_ids),
            ib_is_fitted := True\<rparr>)"

text \<open>\<^verbatim>\<open>ItemBasedModel.get_similar_items\<close>.\<close>

definition ib_get_similar_items :: "item_model \<Rightarrow> int \<Rightarrow> nat \<Rightarrow> error + similar list" where
  "ib_get_similar_items m movie_id n =
     (if \<not> ib_is_fitted m \<or> ib_movie_to_idx m movie_id = None then Inr []
      else
        bind (nth_row (item_similarity m) (the (ib_movie_to_idx m movie_id))) (\<lambda>similarities.
          collect (\<lambda>sim_idx. bind (lookup (ib_idx_to_movie m) sim_idx)
                      (\<lambda>sim_movie_id.
                         Inr (Some (info.extend (get_movie_info (ib_movies_df m) sim_movie_id)
                                      (similar.fields (similarities ! sim_idx))))))
            (take n (argsort_desc similarities))))"

text \<open>
  The weighted average that \<^verbatim>\<open>predict_rating\<close> and \<^verbatim>\<open>_predict_for_idx\<close> both compute from
  the user's ratings, the indices of the rated items and their similarities to the target.
\<close>

definition ib_weighted :: "nat \<Rightarrow> vec \<Rightarrow> nat list \<Rightarrow> vec \<Rightarrow> real option" where
  "ib_weighted k user_ratings rated_indices rated_similarities =
     (let neighbors = filter (\<lambda>(i, s). s > 0) (top_k k rated_indices rated_similarities)
      in if neighbors = [] then None
         else
           (let weights = map snd neighbors;
                ratings = map (\<lambda>(i, s). user_ratings ! i) neighbors
            in Some (weighted_average weights ratings)))"

text \<open>\<^verbatim>\<open>ItemBasedModel.predict_rating\<close>.\<close>

definition ib_predict_rating :: "item_model \<Rightarrow> int \<Rightarrow> int \<Rightarrow> error + real option" where
  "ib_predict_rating m user_id movie_id =
     (if \<not> ib_is_fitted m then Inr None
      else if ib_user_to_idx m user_id = None \<or> ib_movie_to_idx m movie_id = None
        then Inr None
      else
        bind (nth_row (ib_user_item_matrix m) (the (ib_user_to_idx m user_id))) (\<lambda>user_ratings.
          (let rated_indices = where_positive user_ratings
           in if rated_indices = [] then Inr None
              else
                bind (nth_row (item_similarity m) (the (ib_movie_to_idx m movie_id)))
                  (\<lambda>similarities.
                    (let rated_similarities = map (\<lambda>i. similarities ! i) rated_indices
                     in case ib_weighted (ib_k m) user_ratings rated_indices
                               rated_similarities of
                          None \<Rightarrow> Inr None
                        | Some predicted \<Rightarrow> Inr (Some (clip predicted 0.5 5.0)))))))"

text \<open>\<^verbatim>\<open>ItemBasedModel._predict_for_idx\<close>; it does not clip.\<close>

definition ib_predict_for_idx :: "item_model \<Rightarrow> nat \<Rightarrow> vec \<Rightarrow> nat list \<Rightarrow> real option" where
  "ib_predict_for_idx m movie_idx user_ratings rated_indices =
     (if length rated_indices = 0 then None
      else ib_weighted (ib_k m) user_ratings rated_indices
             (map (\<lambda>i. item_similarity m ! movie_idx ! i) rated_indices))"

text \<open>\<^verbatim>\<open>ItemBasedModel.recommend\<close>.\<close>

definition ib_recommend :: "item_model \<Rightarrow> int \<Rightarrow> nat \<Rightarrow> int set option \<Rightarrow>
    error + recommendation list" where
  "ib_recommend m user_id n exclude =
     (if \<not> ib_is_fitted m then Inr []
      else if ib_user_to_idx m user_id = None
        then Inr (get_popular_items (ib_movies_df m) (ib_movie_to_idx m) n (or_empty exclude))
      else
        bind (nth_row (ib_user_item_matrix m) (the (ib_user_to_idx m user_id))) (\<lambda>user_ratings.
          (let rated_indices = where_positive user_ratings
           in bind (collect (\<lambda>idx. map_sum id Some (lookup (ib_idx_to_movie m) idx))
                      rated_indices) (\<lambda>rated_movie_ids.
                (let exclude' = or_empty exclude \<union> set rated_movie_ids
                 in bind (collect (\<lambda>movie_idx.
                            bind (lookup (ib_idx_to_movie m) movie_idx) (\<lambda>movie_id.
                              if movie_id \<in> exclude' then Inr None
                              else Inr (map_option (\<lambda>pred. (movie_id, pred))
                                     (ib_predict_for_idx m movie_idx user_ratings
                                        rated_indices))))
                            [0..<length (ib_movie_ids m)]) (\<lambda>predictions.
                      Inr (top_predictions (ib_movies_df m) ''item_based'' n
                             predictions)))))))"

section \<open>Content-based filtering\<close>

record content_model =
  cb_movies_df :: movies_df
  tfidf_matrix :: matrix
  similarity_matrix :: matrix
  movie_id_to_idx :: "int \<rightharpoonup> nat"
  idx_to_movie_id :: "nat \<rightharpoonup> int"
  embeddings :: "matrix option"
  cb_is_fitted :: bool

text \<open>\<^verbatim>\<open>ContentBasedModel.__init__()\<close>.\<close>

definition cb_init :: content_model where
  "cb_init =
     \<lparr>cb_movies_df = \<lparr>rows = [], has_ratingCount = False\<rparr>,
      tfidf_matrix = [], similarity_matrix = [],
      movie_id_to_idx = Map.empty, idx_to_movie_id = Map.empty,
      embeddings = None, cb_is_fitted = False\<rparr>"

text \<open>\<^verbatim>\<open>_combine_features(tfidf_weight)\<close>.\<close>

definition combine_features :: "matrix \<Rightarrow> matrix \<Rightarrow> real \<Rightarrow> matrix" where
  "combine_features tfidf emb tfidf_weight =
     map2 (\<lambda>t e. map (\<lambda>x. x / (linalg_norm t + 1 / 10 ^ 8) * tfidf_weight) t
                 @ map (\<lambda>x. x / (linalg_norm e + 1 / 10 ^ 8) * (1 - tfidf_weight)) e)
       tfidf emb"

text \<open>
  \<^verbatim>\<open>ContentBasedModel.fit(movies_df, tfidf_matrix, embeddings, use_embeddings)\<close>. The
  feature matrix \<open>tfidf\<close> is the one the caller passes, with a row for each row of the
  catalog (when the caller passes none, the source has scikit-learn's vectorizer compute it
  from the genres; that computation is outside the embedding).
\<close>

definition feature_matrix :: "matrix \<Rightarrow> matrix option \<Rightarrow> bool \<Rightarrow> matrix" where
  "feature_matrix tfidf emb use_embeddings =
     (if use_embeddings \<and> emb \<noteq> None then combine_features tfidf (the emb) (1 / 2)
      else tfidf)"

definition cb_fit :: "content_model \<Rightarrow> movies_df \<Rightarrow> matrix \<Rightarrow> matrix option \<Rightarrow> bool \<Rightarrow>
    content_model" where
  "cb_fit m movies tfidf emb use_embeddings =
     (let ids = map movieId (rows movies);
          emb' = (case emb of Some e \<Rightarrow> Some e | None \<Rightarrow> embeddings m);
          sim = cosine_similarity (feature_matrix tfidf emb' use_embeddings)
      in m\<lparr>cb_movies_df := movies,
            movie_id_to_idx := assign_to_idx (movie_id_to_idx m) ids,
            idx_to_movie_id := assign_from_idx (idx_to_movie_id m) ids,
            tfidf_matrix := tfidf, embeddings := emb',
            similarity_matrix := sim, cb_is_fitted := True\<rparr>)"

text \<open>
  The loop of \<^verbatim>\<open>get_similar_movies\<close> over the indices in descending order of similarity.
\<close>

fun cb_similar_loop :: "content_model \<Rightarrow> int \<Rightarrow> int set \<Rightarrow> vec \<Rightarrow> nat \<Rightarrow> nat list \<Rightarrow>
    similar list \<Rightarrow> error + similar list" where
  "cb_similar_loop m movie_id exclude similarities n [] results = Inr results"
| "cb_similar_loop m movie_id exclude similarities n (sim_idx # rest) results =
     (if length results \<ge> n then Inr results
      else
        bind (lookup (idx_to_movie_id m) sim_idx) (\<lambda>sim_movie_id.
          if sim_movie_id = movie_id \<or> sim_movie_id \<in> exclude
          then cb_similar_loop m movie_id exclude similarities n rest results
          else
            bind (nth_row (rows (cb_movies_df m)) sim_idx) (\<lambda>movie_data.
              cb_similar_loop m movie_id exclude similarities n rest
                (results @
                   [\<lparr>movieId = sim_movie_id, title = title movie_data,
                     genres = genres movie_data, avgRating = avgRating movie_data,
                     similarity = similarities ! sim_idx\<rparr>]))))"

text \<open>\<^verbatim>\<open>ContentBasedModel.get_similar_movies\<close>.\<close>

definition cb_get_similar_movies :: "content_model \<Rightarrow> int \<Rightarrow> nat \<Rightarrow> int set option \<Rightarrow>
    error + similar list" where
  "cb_get_similar_movies m movie_id n exclude =
     (if \<not> cb_is_fitted m then Inl NotFitted
      else if movie_id_to_idx m movie_id = None then Inr []
      else
        bind (nth_row (similarity_matrix m) (the (movie_id_to_idx m movie_id)))
          (\<lambda>similarities.
             cb_similar_loop m movie_id (or_empty exclude) similarities n
               (argsort_desc similarities) []))"

text \<open>
  \<^verbatim>\<open>_get_popular_movies\<close>: the catalog by descending rating count, then descending
  average rating, when it has a \<^verbatim>\<open>ratingCount\<close> column, and by descending average rating
  otherwise. The loop tests the length after it has appended.
\<close>

fun cb_popular_loop :: "nat \<Rightarrow> int set \<Rightarrow> movie list \<Rightarrow> recommendation list \<Rightarrow>
    recommendation list" where
  "cb_popular_loop n exclude [] results = results"
| "cb_popular_loop n exclude (row # rest) results =
     (if movieId row \<in> exclude then cb_popular_loop n exclude rest results
      else
        (let results' = results @
               [\<lparr>movieId = movieId row, title = title row, genres = genres row,
                 avgRating = avgRating row, score = avgRating row, method_tag = ''popular''\<rparr>]
         in if length results' \<ge> n then results'
            else cb_popular_loop n exclude rest results'))"

definition cb_get_popular_movies :: "content_model \<Rightarrow> nat \<Rightarrow> int set option \<Rightarrow>
    recommendation list" where
  "cb_get_popular_movies m n exclude =
     (let df = cb_movies_df m;
          sorted_df = (if has_ratingCount df
                       then sort_desc (\<lambda>r. real (ratingCount r)) (sort_desc avgRating (rows df))
                       else sort_desc avgRating (rows df))
      in cb_popular_loop n (or_empty exclude) sorted_df [])"

text \<open>
  The accumulation loop of \<^verbatim>\<open>recommend_for_user\<close>: the pair of the arrays \<^verbatim>\<open>scores\<close> and
  \<^verbatim>\<open>weights\<close>.
\<close>

fun cb_accumulate :: "content_model \<Rightarrow> rated list \<Rightarrow> vec \<times> vec \<Rightarrow> error + vec \<times> vec" where
  "cb_accumulate m [] acc = Inr acc"
| "cb_accumulate m ((movie_id, rating) # rest) (scores, weights) =
     (case movie_id_to_idx m movie_id of
        None \<Rightarrow> cb_accumulate m rest (scores, weights)
      | Some idx \<Rightarrow>
          bind (nth_row (similarity_matrix m) idx) (\<lambda>row.
            (let weight = (rating - 2.5) / 2.5
             in cb_accumulate m rest
                  (map2 (\<lambda>s x. s + x * weight) scores row,
                   map2 (\<lambda>w x. w + \<bar>x\<bar>) weights row))))"

text \<open>
  \<^verbatim>\<open>scores = np.divide(scores, weights, where=weights > 0)\<close> followed by
  \<^verbatim>\<open>np.nan_to_num(scores)\<close>. The call passes no \<^verbatim>\<open>out\<close> array, so NumPy allocates the
  result and writes it only where the condition holds; the other entries keep what the
  allocated memory held. The function \<open>alloc\<close> stands for that content (after
  \<^verbatim>\<open>nan_to_num\<close>): it is an input of the embedding, since the program does not determine it.
\<close>

definition divide_where_positive :: "(nat \<Rightarrow> real) \<Rightarrow> vec \<Rightarrow> vec \<Rightarrow> vec" where
  "divide_where_positive alloc scores weights =
     map (\<lambda>i. if weights ! i > 0 then scores ! i / weights ! i else alloc i)
       [0..<length scores]"

fun cb_recommend_loop :: "content_model \<Rightarrow> int set \<Rightarrow> vec \<Rightarrow> nat \<Rightarrow> nat list \<Rightarrow>
    recommendation list \<Rightarrow> error + recommendation list" where
  "cb_recommend_loop m exclude scores n [] results = Inr results"
| "cb_recommend_loop m exclude scores n (idx # rest) results =
     (if length results \<ge> n then Inr results
      else
        bind (lookup (idx_to_movie_id m) idx) (\<lambda>movie_id.
          if movie_id \<in> exclude then cb_recommend_loop m exclude scores n rest results
          else
            bind (nth_row (rows (cb_movies_df m)) idx) (\<lambda>movie_data.
              cb_recommend_loop m exclude scores n rest
                (results @
                   [\<lparr>movieId = movie_id, title = title movie_data,
                     genres = genres movie_data, avgRating = avgRating movie_data,
                     score = scores ! idx, method_tag = ''content_based''\<rparr>]))))"

text \<open>
  \<^verbatim>\<open>ContentBasedModel.recommend_for_user\<close>. The method updates the set object it is given
  (\<^verbatim>\<open>exclude.update(...)\<close>) unless that object is \<^verbatim>\<open>None\<close> or empty, in which case
  \<^verbatim>\<open>exclude or set()\<close> has made a new one. The second component of the result is the
  caller's object after the call.
\<close>

definition cb_recommend_for_user :: "content_model \<Rightarrow> (nat \<Rightarrow> real) \<Rightarrow> int \<Rightarrow> rated list \<Rightarrow> nat \<Rightarrow>
    int set option \<Rightarrow> (error + recommendation list) \<times> int set option" where
  "cb_recommend_for_user m alloc user_id user_rated_movies n exclude =
     (if \<not> cb_is_fitted m then (Inl NotFitted, exclude)
      else if user_rated_movies = [] then (Inr (cb_get_popular_movies m n exclude), exclude)
      else
        (let exclude' = or_empty exclude \<union> set (map fst user_rated_movies);
             callers = (if exclude = None \<or> exclude = Some {} then exclude else Some exclude');
             n_movies = length (rows (cb_movies_df m));
             zeros = replicate n_movies 0
         in (bind (cb_accumulate m user_rated_movies (zeros, zeros)) (\<lambda>(scores, weights).
               (let scores' = divide_where_positive alloc scores weights
                in cb_recommend_loop m exclude' scores' n (argsort_desc scores') [])),
             callers)))"

text \<open>The loop of \<^verbatim>\<open>ContentBasedModel.predict_rating\<close>.\<close>

fun cb_predict_loop :: "content_model \<Rightarrow> nat \<Rightarrow> rated list \<Rightarrow> real \<times> real \<Rightarrow> error + real \<times> real"
  where
  "cb_predict_loop m movie_idx [] acc = Inr acc"
| "cb_predict_loop m movie_idx ((rated_id, rating) # rest) (weighted_sum, similarity_sum) =
     (case movie_id_to_idx m rated_id of
        None \<Rightarrow> cb_predict_loop m movie_idx rest (weighted_sum, similarity_sum)
      | Some rated_idx \<Rightarrow>
          bind (nth_row (similarity_matrix m) movie_idx) (\<lambda>row.
          bind (nth_row row rated_idx) (\<lambda>sim.
            if sim > 0
            then cb_predict_loop m movie_idx rest
                   (weighted_sum + sim * rating, similarity_sum + sim)
            else cb_predict_loop m movie_idx rest (weighted_sum, similarity_sum))))"

text \<open>\<^verbatim>\<open>ContentBasedModel.predict_rating\<close>.\<close>

definition cb_predict_rating :: "content_model \<Rightarrow> int \<Rightarrow> int \<Rightarrow> rated list option \<Rightarrow>
    error + real option" where
  "cb_predict_rating m user_id movie_id user_rated_movies =
     (if \<not> cb_is_fitted m \<or> movie_id_to_idx m movie_id = None then Inr None
      else if user_rated_movies = None \<or> user_rated_movies = Some [] then Inr None
      else
        bind (cb_predict_loop m (the (movie_id_to_idx m movie_id)) (the user_rated_movies)
                (0, 0)) (\<lambda>(weighted_sum, similarity_sum).
          if similarity_sum > 0 then Inr (Some (weighted_sum / similarity_sum))
          else Inr None))"

section \<open>Hybrid combiner\<close>

datatype source = Content | Item | User

text \<open>
  The dictionary \<^verbatim>\<open>scores\<close> (or \<^verbatim>\<open>similarities\<close>) of a candidate: the score of each
  sub-model that has given one.
\<close>

record scores_dict =
  sc_content :: "real option"
  sc_item :: "real option"
  sc_user :: "real option"

definition no_scores :: scores_dict where
  "no_scores = \<lparr>sc_content = None, sc_item = None, sc_user = None\<rparr>"

fun set_score :: "source \<Rightarrow> real \<Rightarrow> scores_dict \<Rightarrow> scores_dict" where
  "set_score Content v d = d\<lparr>sc_content := Some v\<rparr>"
| "set_score Item v d = d\<lparr>sc_item := Some v\<rparr>"
| "set_score User v d = d\<lparr>sc_user := Some v\<rparr>"

text \<open>A value of the dictionary \<^verbatim>\<open>all_scores\<close>, and an entry of the result.\<close>

record hy_entry = info +
  scores :: scores_dict
  total_weight :: real

record hybrid_recommendation = recommendation +
  component_scores :: scores_dict

record hybrid_similar = similar +
  sim_method :: string

record hybrid_model =
  content_weight :: real
  item_weight :: real
  user_weight :: real
  content_model :: "content_model option"
  item_model :: "item_model option"
  user_model :: "user_model option"
  hy_movies_df :: "movies_df option"
  hy_ratings_df :: "rating_row list option"
  hy_is_fitted :: bool

text \<open>
  \<^verbatim>\<open>HybridModel.__init__\<close>; Python raises \<^verbatim>\<open>ZeroDivisionError\<close> on a float division by
  zero.
\<close>

definition hy_init :: "real \<Rightarrow> real \<Rightarrow> real \<Rightarrow> error + hybrid_model" where
  "hy_init cw iw uw =
     (let total = cw + iw + uw
      in if total = 0 then Inl ZeroDivisionError
         else Inr \<lparr>content_weight = cw / total, item_weight = iw / total,
                   user_weight = uw / total,
                   content_model = None, item_model = None, user_model = None,
                   hy_movies_df = None, hy_ratings_df = None, hy_is_fitted = False\<rparr>)"

text \<open>\<^verbatim>\<open>HybridModel.set_weights\<close>.\<close>

definition set_weights :: "hybrid_model \<Rightarrow> real \<Rightarrow> real \<Rightarrow> real \<Rightarrow> error + hybrid_model" where
  "set_weights m cw iw uw =
     (let total = cw + iw + uw
      in if total = 0 then Inl ZeroDivisionError
         else Inr (m\<lparr>content_weight := cw / total, item_weight := iw / total,
                      user_weight := uw / total\<rparr>))"


text \<open>\<^verbatim>\<open>_get_user_ratings\<close>.\<close>

definition get_user_ratings :: "hybrid_model \<Rightarrow> int \<Rightarrow> rated list" where
  "get_user_ratings m user_id =
     (case hy_ratings_df m of
        None \<Rightarrow> []
      | Some df \<Rightarrow> map (\<lambda>r. (r_movieId r, r_rating r)) (filter (\<lambda>r. r_userId r = user_id) df))"

text \<open>
  A Python float that may be NaN. \<^verbatim>\<open>HybridModel.predict_rating\<close> divides the collected
  weights by their sum; when the sum is zero the quotients are NaN or infinite, and so
  are \<^verbatim>\<open>np.average\<close> of them and \<^verbatim>\<open>np.clip\<close> of that: the method returns NaN.
\<close>

datatype pyfloat = Num real | NaN

text \<open>
  The three optional predictions of \<^verbatim>\<open>HybridModel.predict_rating\<close> with their weights, in
  the order in which the method appends them.
\<close>

definition hy_collect_predictions :: "hybrid_model \<Rightarrow> int \<Rightarrow> int \<Rightarrow> rated list option \<Rightarrow>
    error + (real \<times> real) list" where
  "hy_collect_predictions m user_id movie_id user_rated_movies =
     bind (case content_model m of
             Some c \<Rightarrow>
               if user_rated_movies = None \<or> user_rated_movies = Some [] then Inr None
               else cb_predict_rating c user_id movie_id user_rated_movies
           | None \<Rightarrow> Inr None) (\<lambda>cb_pred.
     bind (case item_model m of
             Some i \<Rightarrow> ib_predict_rating i user_id movie_id
           | None \<Rightarrow> Inr None) (\<lambda>ib_pred.
     bind (case user_model m of
             Some u \<Rightarrow> ub_predict_rating u user_id movie_id
           | None \<Rightarrow> Inr None) (\<lambda>ub_pred.
       Inr ((case cb_pred of Some p \<Rightarrow> [(p, content_weight m)] | None \<Rightarrow> [])
            @ (case ib_pred of Some p \<Rightarrow> [(p, item_weight m)] | None \<Rightarrow> [])
            @ (case ub_pred of Some p \<Rightarrow> [(p, user_weight m)] | None \<Rightarrow> [])))))"

text \<open>\<^verbatim>\<open>HybridModel.predict_rating\<close>.\<close>

definition hy_predict_rating :: "hybrid_model \<Rightarrow> int \<Rightarrow> int \<Rightarrow> rated list option \<Rightarrow>
    error + pyfloat option" where
  "hy_predict_rating m user_id movie_id user_rated_movies =
     (if \<not> hy_is_fitted m then Inr None
      else
        bind (hy_collect_predictions m user_id movie_id user_rated_movies) (\<lambda>collected.
          (let predictions = map fst collected;
               weights = map snd collected
           in if predictions = [] then Inr None
              else if sum_list weights = 0 then Inr (Some NaN)
              else
                (let weights' = map (\<lambda>w. w / sum_list weights) weights;
                     predicted = weighted_average weights' predictions
                 in Inr (Some (Num (clip predicted 0.5 5.0)))))))"

text \<open>
  The dictionary \<^verbatim>\<open>all_scores\<close> keeps its keys in the order of their first insertion: a
  list of pairs with distinct keys. One pass of the loop over the recommendations of a
  sub-model:
\<close>

definition add_score :: "source \<Rightarrow> real \<Rightarrow> (int \<times> hy_entry) list \<Rightarrow> recommendation \<Rightarrow>
    (int \<times> hy_entry) list" where
  "add_score src w all_scores rec =
     (let movie_id = movieId rec;
          all_scores' =
            (if movie_id \<notin> fst ` set all_scores
             then all_scores @
                    [(movie_id, \<lparr>movieId = movie_id, title = title rec, genres = genres rec,
                                 avgRating = avgRating rec, scores = no_scores,
                                 total_weight = 0\<rparr>)]
             else all_scores)
      in map (\<lambda>(key, data).
                if key = movie_id
                then (key, data\<lparr>scores := set_score src (score rec) (scores data),
                                 total_weight := total_weight data + w\<rparr>)
                else (key, data)) all_scores')"

text \<open>The final score of a candidate: the weighted sum of the available scores.\<close>

definition final_score :: "hybrid_model \<Rightarrow> scores_dict \<Rightarrow> real" where
  "final_score m d =
     (let (fs, ws) = (0, 0);
          (fs, ws) = (case sc_content d of
                        Some v \<Rightarrow> (fs + v * content_weight m, ws + content_weight m)
                      | None \<Rightarrow> (fs, ws));
          (fs, ws) = (case sc_item d of
                        Some v \<Rightarrow> (fs + v * item_weight m, ws + item_weight m)
                      | None \<Rightarrow> (fs, ws));
          (fs, ws) = (case sc_user d of
                        Some v \<Rightarrow> (fs + v * user_weight m, ws + user_weight m)
                      | None \<Rightarrow> (fs, ws))
      in if ws > 0 then fs / ws else fs)"

definition hy_results :: "hybrid_model \<Rightarrow> int set \<Rightarrow> (int \<times> hy_entry) list \<Rightarrow>
    hybrid_recommendation list" where
  "hy_results m exclude all_scores =
     map (\<lambda>(movie_id, data).
            \<lparr>movieId = movie_id, title = title data, genres = genres data,
             avgRating = avgRating data, score = final_score m (scores data),
             method_tag = ''hybrid'', component_scores = scores data\<rparr>)
       (filter (\<lambda>(movie_id, data). movie_id \<notin> exclude) all_scores)"

text \<open>
  \<^verbatim>\<open>HybridModel.recommend\<close>. The set object \<^verbatim>\<open>exclude\<close> of the method is the caller's
  object unless that is \<^verbatim>\<open>None\<close> or empty; the method passes it to
  \<^verbatim>\<open>recommend_for_user\<close>, which may update it. The second component of the result is
  the caller's object after the call.
\<close>

definition hy_recommend :: "hybrid_model \<Rightarrow> (nat \<Rightarrow> real) \<Rightarrow> int \<Rightarrow> nat \<Rightarrow> int set option \<Rightarrow>
    rated list option \<Rightarrow> (error + hybrid_recommendation list) \<times> int set option" where
  "hy_recommend m alloc user_id n exclude user_rated_movies =
     (if \<not> hy_is_fitted m then (Inr [], exclude)
      else
        (let (cb_recs, exclude_obj) =
               (case content_model m of
                  Some c \<Rightarrow>
                    cb_recommend_for_user c alloc user_id
                      (case user_rated_movies of
                         None \<Rightarrow> get_user_ratings m user_id
                       | Some rated \<Rightarrow> rated)
                      (n * 2) (Some (or_empty exclude))
                | None \<Rightarrow> (Inr [], Some (or_empty exclude)));
             callers = (if exclude = None \<or> exclude = Some {} then exclude else exclude_obj)
         in (bind cb_recs (\<lambda>cb_recs.
             bind (case item_model m of
                     Some i \<Rightarrow> ib_recommend i user_id (n * 2) exclude_obj
                   | None \<Rightarrow> Inr []) (\<lambda>ib_recs.
             bind (case user_model m of
                     Some u \<Rightarrow> ub_recommend u user_id (n * 2) exclude_obj
                   | None \<Rightarrow> Inr []) (\<lambda>ub_recs.
               (let all_scores = fold (\<lambda>rec a. add_score Content (content_weight m) a rec)
                                   cb_recs [];
                    all_scores = fold (\<lambda>rec a. add_score Item (item_weight m) a rec)
                                   ib_recs all_scores;
                    all_scores = fold (\<lambda>rec a. add_score User (user_weight m) a rec)
                                   ub_recs all_scores;
                    results = hy_results m (or_empty exclude_obj) all_scores
                in Inr (take n (sort_desc score results)))))),
             callers)))"

text \<open>\<^verbatim>\<open>HybridModel.get_similar_movies\<close>.\<close>

definition add_similarity :: "source \<Rightarrow> (int \<times> hy_entry) list \<Rightarrow> similar \<Rightarrow>
    (int \<times> hy_entry) list" where
  "add_similarity src all_similar movie =
     (let mid = movieId movie;
          all_similar' =
            (if mid \<notin> fst ` set all_similar
             then all_similar @
                    [(mid, \<lparr>movieId = mid, title = title movie, genres = genres movie,
                            avgRating = avgRating movie, scores = no_scores,
                            total_weight = 0\<rparr>)]
             else all_similar)
      in map (\<lambda>(key, data).
                if key = mid
                then (key, data\<lparr>scores := set_score src (similarity movie) (scores data)\<rparr>)
                else (key, data)) all_similar')"

definition hy_get_similar_movies :: "hybrid_model \<Rightarrow> int \<Rightarrow> nat \<Rightarrow> error + hybrid_similar list"
  where
  "hy_get_similar_movies m movie_id n =
     (if \<not> hy_is_fitted m then Inr []
      else
        bind (case content_model m of
                Some c \<Rightarrow> cb_get_similar_movies c movie_id (n * 2) None
              | None \<Rightarrow> Inr []) (\<lambda>cb_similar.
        bind (case item_model m of
                Some i \<Rightarrow> ib_get_similar_items i movie_id (n * 2)
              | None \<Rightarrow> Inr []) (\<lambda>ib_similar.
          (let all_similar = fold (\<lambda>movie a. add_similarity Content a movie) cb_similar [];
               all_similar = fold (\<lambda>movie a. add_similarity Item a movie) ib_similar
                               all_similar;
               results = map (\<lambda>(mid, data).
                                \<lparr>movieId = mid, title = title data, genres = genres data,
                                 avgRating = avgRating data,
                                 similarity = final_score m (scores data),
                                 sim_method = ''hybrid''\<rparr>) all_similar
           in Inr (take n (sort_desc similarity results))))))"

section \<open>Properties of a similarity matrix\<close>



section \<open>The hybrid ranking in the words of the specification\<close>

text \<open>
  The candidates of a ranking are the movies of the three result lists, each once, in the
  order of their first appearance (\<open>first_seen\<close>). The opinion of a sub-model on a
  candidate is the score of its entry for that movie (of the last one, should it have
  several), or nothing. The blended score is the average of the opinions that exist,
  weighted by the weights of their sub-models; the ranking sorts the candidates that are
  not excluded by descending blended score and keeps \<open>n\<close>.
\<close>

definition first_seen :: "'a list \<Rightarrow> 'a list" where
  "first_seen xs = rev (remdups (rev xs))"

definition last_option :: "'a list \<Rightarrow> 'a option" where
  "last_option xs = (if xs = [] then None else Some (last xs))"

definition opinion :: "recommendation list \<Rightarrow> int \<Rightarrow> real option" where
  "opinion recs mid = map_option score (last_option (filter (\<lambda>r. movieId r = mid) recs))"




text \<open>
  For the proofs: the three result lists as one list of entries tagged with their source
  and weight, and the value that the dictionary \<^verbatim>\<open>all_scores\<close> holds for a key after the
  loops have run over such a list.
\<close>

type_synonym tagged = "source \<times> real \<times> recommendation"

definition tag :: "source \<Rightarrow> real \<Rightarrow> recommendation list \<Rightarrow> tagged list" where
  "tag src w recs = map (\<lambda>r. (src, w, r)) recs"

definition t_rec :: "tagged \<Rightarrow> recommendation" where "t_rec t = snd (snd t)"
definition t_id :: "tagged \<Rightarrow> int" where "t_id t = movieId (t_rec t)"

definition latest :: "source \<Rightarrow> tagged list \<Rightarrow> int \<Rightarrow> real option" where
  "latest src ts mid =
     map_option (score \<circ> t_rec) (last_option (filter (\<lambda>t. fst t = src \<and> t_id t = mid) ts))"


section \<open>The user-based prediction in the words of the specification\<close>

text \<open>
  The raters of a movie are the users with a rating for it. The neighbours of a user for
  a movie are, of the \<open>k\<close> raters most similar to the user, those with a positive
  similarity. The prediction is the mean rating of the user when there is no neighbour,
  and otherwise that mean plus the average of the neighbours' deviations from their own
  means, weighted by similarity, clipped to \<open>[0.5, 5.0]\<close>.
\<close>

definition ub_raters :: "user_model \<Rightarrow> nat \<Rightarrow> nat list" where
  "ub_raters m movie_idx =
     filter (\<lambda>i. ub_user_item_matrix m ! i ! movie_idx > 0)
       [0..<length (ub_user_item_matrix m)]"

definition ub_neighbors :: "user_model \<Rightarrow> nat \<Rightarrow> nat \<Rightarrow> (nat \<times> real) list" where
  "ub_neighbors m user_idx movie_idx =
     filter (\<lambda>(i, s). s > 0)
       (take (ub_k m)
          (rev (sort_key snd
                  (map (\<lambda>i. (i, user_similarity m ! user_idx ! i)) (ub_raters m movie_idx)))))"


section \<open>Example data\<close>

text \<open>A catalog of movies that have an identifier and a title, no genres and no ratings yet.\<close>

definition catalog :: "(int \<times> string) list \<Rightarrow> movies_df" where
  "catalog entries =
     \<lparr>rows = map (\<lambda>(mid, name). \<lparr>movieId = mid, title = name, genres = [], avgRating = 0,
                                   ratingCount = 0\<rparr>) entries,
      has_ratingCount = False\<rparr>"

text \<open>The feature vectors of two movies that share no genre.\<close>

definition orthogonal_features :: matrix where
  "orthogonal_features = [[1, 0], [0, 1]]"

text \<open>
  The scenario of the specification for the item-based model: the ratings
  \<^verbatim>\<open>{(1,10,5.0), (2,10,5.0), (1,11,5.0), (2,11,1.0)}\<close> and \<^verbatim>\<open>min_ratings=1\<close>.
\<close>

definition spec_ratings :: "rating_row list" where
  "spec_ratings = [(1, 10, 5), (2, 10, 5), (1, 11, 5), (2, 11, 1)]"

definition item_example :: item_model where
  "item_example = ib_fit (ib_init 20 1) spec_ratings None"

text \<open>
  A content-based model that is fitted on the movies 1 and 2 and then again on the movies 3
  and 4, and a new instance that is fitted on the movies 3 and 4 only.
\<close>

definition refitted_content :: content_model where
  "refitted_content =
     cb_fit (cb_fit cb_init (catalog [(1, ''A''), (2, ''B'')]) orthogonal_features None False)
       (catalog [(3, ''C''), (4, ''D'')]) orthogonal_features None False"

definition fresh_content :: content_model where
  "fresh_content =
     cb_fit cb_init (catalog [(3, ''C''), (4, ''D'')]) orthogonal_features None False"


text \<open>
  Two users who have rated one movie in common (movie 10) and one movie each that the
  other has not rated.
\<close>

definition min_common_ratings :: "rating_row list" where
  "min_common_ratings = [(1, 10, 5), (1, 11, 1), (2, 10, 5), (2, 12, 1)]"






section \<open>The state after fit\<close>

lemma ub_fit_sel:
  "ub_is_fitted (ub_fit m r mv)"
  "ub_movies_df (ub_fit m r mv) = mv"
  "ub_k (ub_fit m r mv) = ub_k m"
  "ub_movie_ids (ub_fit m r mv) = sorted_unique (map r_movieId r)"
  "ub_user_ids (ub_fit m r mv) = sorted_unique (map r_userId r)"
  "ub_movie_to_idx (ub_fit m r mv) =
     assign_to_idx (ub_movie_to_idx m) (sorted_unique (map r_movieId r))"
  "ub_idx_to_movie (ub_fit m r mv) =
     assign_from_idx (ub_idx_to_movie m) (sorted_unique (map r_movieId r))"
  "ub_user_to_idx (ub_fit m r mv) =
     assign_to_idx (ub_user_to_idx m) (sorted_unique (map r_userId r))"
  "ub_idx_to_user (ub_fit m r mv) =
     assign_from_idx (ub_idx_to_user m) (sorted_unique (map r_userId r))"
  "ub_user_item_matrix (ub_fit m r mv) =
     rating_matrix (assign_to_idx (ub_user_to_idx m) (sorted_unique (map r_userId r)))
       (assign_to_idx (ub_movie_to_idx m) (sorted_unique (map r_movieId r)))
       (length (sorted_unique (map r_userId r))) (length (sorted_unique (map r_movieId r))) r"
  "user_means (ub_fit m r mv) = compute_user_means (ub_user_item_matrix (ub_fit m r mv))"
  "user_similarity (ub_fit m r mv) =
     compute_user_similarity (ub_user_item_matrix (ub_fit m r mv))
       (compute_user_means (ub_user_item_matrix (ub_fit m r mv)))"
  by (simp_all add: ub_fit_def Let_def)

lemma ib_fit_sel:
  "ib_is_fitted (ib_fit m r mv)"
  "ib_movies_df (ib_fit m r mv) = mv"
  "ib_k (ib_fit m r mv) = ib_k m"
  "ib_movie_ids (ib_fit m r mv) =
     sorted_unique (map r_movieId (filter_min_ratings (min_ratings m) r))"
  "ib_user_ids (ib_fit m r mv) =
     sorted_unique (map r_userId (filter_min_ratings (min_ratings m) r))"
  "ib_movie_to_idx (ib_fit m r mv) =
     assign_to_idx (ib_movie_to_idx m)
       (sorted_unique (map r_movieId (filter_min_ratings (min_ratings m) r)))"
  "ib_idx_to_movie (ib_fit m r mv) =
     assign_from_idx (ib_idx_to_movie m)
       (sorted_unique (map r_movieId (filter_min_ratings (min_ratings m) r)))"
  "ib_user_to_idx (ib_fit m r mv) =
     assign_to_idx (ib_user_to_idx m)
       (sorted_unique (map r_userId (filter_min_ratings (min_ratings m) r)))"
  "ib_idx_to_user (ib_fit m r mv) =
     assign_from_idx (ib_idx_to_user m)
       (sorted_unique (map r_userId (filter_min_ratings (min_ratings m) r)))"
  "ib_user_item_matrix (ib_fit m r mv) =
     rating_matrix
       (assign_to_idx (ib_user_to_idx m)
          (sorted_unique (map r_userId (filter_min_ratings (min_ratings m) r))))
       (assign_to_idx (ib_movie_to_idx m)
          (sorted_unique (map r_movieId (filter_min_ratings (min_ratings m) r))))
       (length (sorted_unique (map r_userId (filter_min_ratings (min_ratings m) r))))
       (length (sorted_unique (map r_movieId (filter_min_ratings (min_ratings m) r))))
       (filter_min_ratings (min_ratings m) r)"
  "item_similarity (ib_fit m r mv) =
     compute_item_similarity (ib_user_item_matrix (ib_fit m r mv))
       (length (sorted_unique (map r_movieId (filter_min_ratings (min_ratings m) r))))"
  by (simp_all add: ib_fit_def Let_def)

lemma cb_fit_sel:
  "cb_is_fitted (cb_fit m mv t e u)"
  "cb_movies_df (cb_fit m mv t e u) = mv"
  "movie_id_to_idx (cb_fit m mv t e u) =
     assign_to_idx (movie_id_to_idx m) (map movieId (rows mv))"
  "idx_to_movie_id (cb_fit m mv t e u) =
     assign_from_idx (idx_to_movie_id m) (map movieId (rows mv))"
  "embeddings (cb_fit m mv t e u) = (case e of Some x \<Rightarrow> Some x | None \<Rightarrow> embeddings m)"
  "similarity_matrix (cb_fit m mv t e u) =
     cosine_similarity
       (feature_matrix t (case e of Some x \<Rightarrow> Some x | None \<Rightarrow> embeddings m) u)"
  by (simp_all add: cb_fit_def Let_def)




lemma length_csr_toarray [simp]: "length (csr_toarray nr nc es) = nr"
  by (simp add: csr_toarray_def)


lemma length_rating_matrix [simp]: "length (rating_matrix a b nr nc df) = nr"
  by (simp add: rating_matrix_def)


lemma length_compute_user_means [simp]: "length (compute_user_means M) = length M"
  by (simp add: compute_user_means_def)

lemma length_fill_diagonal [simp]: "length (fill_diagonal M v) = length M"
  by (simp add: fill_diagonal_def)

lemma length_gram [simp]: "length (gram A) = length A"
  by (simp add: gram_def)

lemma length_compute_user_similarity [simp]:
  "length (compute_user_similarity M means) = min (length M) (length means)"
  by (simp add: compute_user_similarity_def Let_def)

lemma length_compute_item_similarity [simp]: "length (compute_item_similarity M n) = n"
  by (simp add: compute_item_similarity_def Let_def cosine_similarity_def)



lemma feature_matrix_plain: "feature_matrix t e False = t"
  by (simp add: feature_matrix_def)

lemma rows_catalog: "map movieId (rows (catalog es)) = map fst es"
  by (simp add: catalog_def split_def)

subsection \<open>The examples, evaluated\<close>

lemma cosine_orthogonal: "cosine_similarity orthogonal_features = [[1, 0], [0, 1]]"
  by (simp add: cosine_similarity_def orthogonal_features_def gram_def l2_normalize_def
      linalg_norm_def dot_def)

lemma spec_ratings_filtered: "filter_min_ratings (Suc 0) spec_ratings = spec_ratings"
  by (simp add: filter_min_ratings_def spec_ratings_def r_movieId_def)

lemma spec_ratings_ids:
  "sorted_unique (map r_movieId spec_ratings) = [10, 11]"
  "sorted_unique (map r_userId spec_ratings) = [1, 2]"
  by (simp_all add: sorted_unique_def spec_ratings_def r_movieId_def r_userId_def)

lemma spec_ratings_matrix:
  "rating_matrix [1 \<mapsto> 0, 2 \<mapsto> Suc 0] [10 \<mapsto> 0, 11 \<mapsto> Suc 0] (Suc (Suc 0)) (Suc (Suc 0))
     spec_ratings = [[5, 5], [5, 1]]"
  by (simp add: rating_matrix_def csr_toarray_def spec_ratings_def r_movieId_def r_userId_def
      r_rating_def)

lemma spec_ratings_similarity:
  "compute_item_similarity [[5, 5], [5, 1]] (Suc (Suc 0)) = [[0, 0], [0, 0]]"
  by (simp add: compute_item_similarity_def center_item_row_def cosine_similarity_def gram_def
      l2_normalize_def linalg_norm_def dot_def fill_diagonal_def enumerate_eq_zip Let_def)

lemma item_example_fields:
  "ib_is_fitted item_example"
  "ib_movies_df item_example = None"
  "ib_movie_to_idx item_example = [10 \<mapsto> 0, 11 \<mapsto> Suc 0]"
  "ib_idx_to_movie item_example = [0 \<mapsto> 10, Suc 0 \<mapsto> 11]"
  "ib_user_item_matrix item_example = [[5, 5], [5, 1]]"
  "item_similarity item_example = [[0, 0], [0, 0]]"
  by (simp_all add: item_example_def ib_fit_sel ib_init_def spec_ratings_filtered
      spec_ratings_ids spec_ratings_matrix spec_ratings_similarity
      assign_to_idx_def assign_from_idx_def enumerate_eq_zip)

lemma refitted_content_fields:
  "cb_is_fitted refitted_content"
  "movie_id_to_idx refitted_content = [1 \<mapsto> 0, 2 \<mapsto> Suc 0, 3 \<mapsto> 0, 4 \<mapsto> Suc 0]"
  "idx_to_movie_id refitted_content = [0 \<mapsto> 3, Suc 0 \<mapsto> 4]"
  "similarity_matrix refitted_content = [[1, 0], [0, 1]]"
  "rows (cb_movies_df refitted_content) = rows (catalog [(3, ''C''), (4, ''D'')])"
  by (simp_all add: refitted_content_def cb_fit_sel feature_matrix_plain cosine_orthogonal
      rows_catalog cb_init_def assign_to_idx_def assign_from_idx_def enumerate_eq_zip)

lemma fresh_content_fields:
  "cb_is_fitted fresh_content"
  "movie_id_to_idx fresh_content = [3 \<mapsto> 0, 4 \<mapsto> Suc 0]"
  by (simp_all add: fresh_content_def cb_fit_sel rows_catalog cb_init_def assign_to_idx_def
      enumerate_eq_zip)


lemma min_common_ratings_ids:
  "sorted_unique (map r_movieId min_common_ratings) = [10, 11, 12]"
  "sorted_unique (map r_userId min_common_ratings) = [1, 2]"
  by (simp_all add: sorted_unique_def min_common_ratings_def r_movieId_def r_userId_def)

lemma min_common_ratings_matrix:
  "rating_matrix [1 \<mapsto> 0, 2 \<mapsto> Suc 0] [10 \<mapsto> 0, 11 \<mapsto> Suc 0, 12 \<mapsto> Suc (Suc 0)]
     (Suc (Suc 0)) (Suc (Suc (Suc 0))) min_common_ratings = [[5, 1, 0], [5, 0, 1]]"
  by (simp add: rating_matrix_def csr_toarray_def min_common_ratings_def r_movieId_def
      r_userId_def r_rating_def)

lemma min_common_ratings_means: "compute_user_means [[5, 1, 0], [5, 0, 1]] = [3, 3]"
  by (simp add: compute_user_means_def)

lemma min_common_ratings_similarity:
  "compute_user_similarity [[5, 1, 0], [5, 0, 1]] [3, 3] = [[0, 1 / 2], [1 / 2, 0]]"
  by (simp add: compute_user_similarity_def gram_def l2_normalize_def linalg_norm_def dot_def
      fill_diagonal_def enumerate_eq_zip Let_def)

lemma min_common_fields:
  "ub_is_fitted (ub_fit (ub_init 20 c) min_common_ratings None)"
  "ub_k (ub_fit (ub_init 20 c) min_common_ratings None) = 20"
  "ub_user_to_idx (ub_fit (ub_init 20 c) min_common_ratings None) = [1 \<mapsto> 0, 2 \<mapsto> Suc 0]"
  "ub_movie_to_idx (ub_fit (ub_init 20 c) min_common_ratings None) =
     [10 \<mapsto> 0, 11 \<mapsto> Suc 0, 12 \<mapsto> Suc (Suc 0)]"
  "ub_user_item_matrix (ub_fit (ub_init 20 c) min_common_ratings None) = [[5, 1, 0], [5, 0, 1]]"
  "user_means (ub_fit (ub_init 20 c) min_common_ratings None) = [3, 3]"
  "user_similarity (ub_fit (ub_init 20 c) min_common_ratings None) = [[0, 1 / 2], [1 / 2, 0]]"
  by (simp_all add: ub_fit_sel ub_init_def min_common_ratings_ids min_common_ratings_matrix
      min_common_ratings_means min_common_ratings_similarity assign_to_idx_def enumerate_eq_zip)















section \<open>Queries on an instance that has not been fitted\<close>

text \<open>
  Claim C1, as the code has it. On an instance whose \<^verbatim>\<open>is_fitted\<close> flag is not set, the
  content-based \<^verbatim>\<open>get_similar_movies\<close> and \<^verbatim>\<open>recommend_for_user\<close> raise the not-fitted
  error. Every other query method has a guard that returns an ordinary value instead:
  the content-based \<^verbatim>\<open>predict_rating\<close> and the \<^verbatim>\<open>predict_rating\<close> of the item-based,
  user-based and hybrid models return \<^verbatim>\<open>None\<close>, and \<^verbatim>\<open>get_similar_items\<close>, the hybrid
  \<^verbatim>\<open>get_similar_movies\<close> and the three \<^verbatim>\<open>recommend\<close> methods return the empty list.
\<close>

theorem unfitted_queries:
  assumes "\<not> cb_is_fitted c" and "\<not> ib_is_fitted i" and "\<not> ub_is_fitted u"
    and "\<not> hy_is_fitted h"
  shows "cb_get_similar_movies c movie_id n exclude = Inl NotFitted
    \<and> fst (cb_recommend_for_user c alloc user_id rated_list n exclude) = Inl NotFitted
    \<and> cb_predict_rating c user_id movie_id user_rated_movies = Inr None
    \<and> ib_get_similar_items i movie_id n = Inr []
    \<and> ib_predict_rating i user_id movie_id = Inr None
    \<and> ib_recommend i user_id n exclude = Inr []
    \<and> ub_get_similar_users u user_id n = Inr []
    \<and> ub_predict_rating u user_id movie_id = Inr None
    \<and> ub_recommend u user_id n exclude = Inr []
    \<and> hy_get_similar_movies h movie_id n = Inr []
    \<and> hy_predict_rating h user_id movie_id user_rated_movies = Inr None
    \<and> fst (hy_recommend h alloc user_id n exclude user_rated_movies) = Inr []"
  using assms
  by (simp add: cb_get_similar_movies_def cb_recommend_for_user_def cb_predict_rating_def
      ib_get_similar_items_def ib_predict_rating_def ib_recommend_def
      ub_get_similar_users_def ub_predict_rating_def ub_recommend_def
      hy_get_similar_movies_def hy_predict_rating_def hy_recommend_def)

text \<open>
  The theorem at the freshly constructed instances: \<^verbatim>\<open>ContentBasedModel()\<close>,
  \<^verbatim>\<open>ItemBasedModel(20, 5)\<close>, \<^verbatim>\<open>UserBasedModel(20, 3)\<close> and
  \<^verbatim>\<open>HybridModel(0.3, 0.35, 0.35)\<close>, queried for user 7, movie 1 and ten results.
\<close>

theorem unfitted_queries_witness:
  "\<not> cb_is_fitted cb_init \<and> \<not> ib_is_fitted (ib_init 20 5) \<and> \<not> ub_is_fitted (ub_init 20 3)
   \<and> \<not> hy_is_fitted (projr (hy_init 0.3 0.35 0.35))
   \<and> cb_get_similar_movies cb_init 1 10 None = Inl NotFitted
   \<and> fst (cb_recommend_for_user cb_init (\<lambda>i. 0) 7 [(1, 4)] 10 None) = Inl NotFitted
   \<and> cb_predict_rating cb_init 7 1 (Some [(1, 4)]) = Inr None
   \<and> ib_get_similar_items (ib_init 20 5) 1 10 = Inr []
   \<and> ib_predict_rating (ib_init 20 5) 7 1 = Inr None
   \<and> ib_recommend (ib_init 20 5) 7 10 None = Inr []
   \<and> ub_get_similar_users (ub_init 20 3) 7 10 = Inr []
   \<and> ub_predict_rating (ub_init 20 3) 7 1 = Inr None
   \<and> ub_recommend (ub_init 20 3) 7 10 None = Inr []
   \<and> hy_get_similar_movies (projr (hy_init 0.3 0.35 0.35)) 1 10 = Inr []
   \<and> hy_predict_rating (projr (hy_init 0.3 0.35 0.35)) 7 1 (Some [(1, 4)]) = Inr None
   \<and> fst (hy_recommend (projr (hy_init 0.3 0.35 0.35)) (\<lambda>i. 0) 7 10 None (Some [(1, 4)]))
       = Inr []"
proof -
  have c: "\<not> cb_is_fitted cb_init"
    by (simp add: cb_init_def)
  have i: "\<not> ib_is_fitted (ib_init 20 5)"
    by (simp add: ib_init_def)
  have u: "\<not> ub_is_fitted (ub_init 20 3)"
    by (simp add: ub_init_def)
  have h: "\<not> hy_is_fitted (projr (hy_init 0.3 0.35 0.35))"
    by (simp add: hy_init_def)
  show ?thesis
    using c i u h
      unfitted_queries [OF c i u h, of 1 10 None "\<lambda>i. 0" 7 "[(1, 4)]" "Some [(1, 4)]"]
    by simp
qed

text \<open>
  The claim as the specification states it fails: the item-based model constructed with
  its defaults answers \<^verbatim>\<open>get_similar_items(1, n=10)\<close> before any \<^verbatim>\<open>fit\<close> with the empty
  list, not with an error.
\<close>

theorem unfitted_item_model_returns_empty:
  "\<not> ib_is_fitted (ib_init 20 5) \<and> ib_get_similar_items (ib_init 20 5) 1 10 = Inr []"
  by (simp add: ib_get_similar_items_def ib_init_def)

section \<open>Similar items of the item-based model\<close>

text \<open>
  What the two methods do guarantee: a result of the content-based method holds neither
  the query movie nor an excluded movie and has at most \<open>n\<close> entries; a result of the
  item-based method has at most \<open>n\<close> entries.
\<close>

lemma cb_similar_loop_props:
  assumes "cb_similar_loop m movie_id exclude sims n idxs results = Inr out"
    and "\<forall>r \<in> set results. movieId r \<noteq> movie_id \<and> movieId r \<notin> exclude"
    and "length results \<le> n"
  shows "(\<forall>r \<in> set out. movieId r \<noteq> movie_id \<and> movieId r \<notin> exclude) \<and> length out \<le> n"
  using assms
proof (induction idxs arbitrary: results)
  case Nil
  then show ?case by simp
next
  case (Cons sim_idx rest)
  show ?case
  proof (cases "length results \<ge> n")
    case True
    then show ?thesis
      using Cons.prems by simp
  next
    case False
    show ?thesis
    proof (cases "idx_to_movie_id m sim_idx")
      case None
      then show ?thesis
        using Cons.prems(1) False by (simp add: bind_def lookup_def)
    next
      case (Some sim_movie_id)
      show ?thesis
      proof (cases "sim_movie_id = movie_id \<or> sim_movie_id \<in> exclude")
        case True
        then have "cb_similar_loop m movie_id exclude sims n rest results = Inr out"
          using Cons.prems(1) False Some by (simp add: bind_def lookup_def)
        from Cons.IH [OF this Cons.prems(2,3)] show ?thesis .
      next
        case skip: False
        show ?thesis
        proof (cases "sim_idx < length (rows (cb_movies_df m))")
          case True
          define entry :: similar where "entry =
            \<lparr>movieId = sim_movie_id, title = title (rows (cb_movies_df m) ! sim_idx),
             genres = genres (rows (cb_movies_df m) ! sim_idx),
             avgRating = avgRating (rows (cb_movies_df m) ! sim_idx),
             similarity = sims ! sim_idx\<rparr>"
          have step: "cb_similar_loop m movie_id exclude sims n rest (results @ [entry]) = Inr out"
            using Cons.prems(1) False Some skip True
            by (simp add: bind_def lookup_def nth_row_def entry_def)
          have "\<forall>r \<in> set (results @ [entry]). movieId r \<noteq> movie_id \<and> movieId r \<notin> exclude"
            using Cons.prems(2) skip by (simp add: entry_def)
          moreover have "length (results @ [entry]) \<le> n"
            using False by simp
          ultimately show ?thesis
            using Cons.IH [OF step] by blast
        next
          case False
          then show ?thesis
            using Cons.prems(1) \<open>\<not> n \<le> length results\<close> Some skip
            by (simp add: bind_def lookup_def nth_row_def)
        qed
      qed
    qed
  qed
qed

lemma cb_get_similar_movies_props:
  assumes "cb_get_similar_movies m movie_id n exclude = Inr out"
  shows "movie_id \<notin> movieId ` set out \<and> length out \<le> n
         \<and> movieId ` set out \<inter> or_empty exclude = {}"
proof -
  have "(\<forall>r \<in> set out. movieId r \<noteq> movie_id \<and> movieId r \<notin> or_empty exclude) \<and> length out \<le> n"
  proof (cases "movie_id_to_idx m movie_id = None")
    case True
    then show ?thesis
      using assms by (auto simp: cb_get_similar_movies_def split: if_splits)
  next
    case False
    then obtain sims where
      "cb_similar_loop m movie_id (or_empty exclude) sims n (argsort_desc sims) [] = Inr out"
      using assms
      by (auto simp: cb_get_similar_movies_def bind_def nth_row_def split: if_splits)
    from cb_similar_loop_props [OF this] show ?thesis
      by simp
  qed
  then show ?thesis
    by auto
qed

lemma collect_length: "collect f xs = Inr out \<Longrightarrow> length out \<le> length xs"
proof (induction xs arbitrary: out)
  case Nil
  then show ?case by simp
next
  case (Cons x xs)
  then show ?case
    by (auto simp: bind_def split: sum.splits option.splits)
qed

lemma ib_get_similar_items_length:
  assumes "ib_get_similar_items m movie_id n = Inr out"
  shows "length out \<le> n"
proof (cases "\<not> ib_is_fitted m \<or> ib_movie_to_idx m movie_id = None")
  case True
  then show ?thesis
    using assms by (auto simp: ib_get_similar_items_def)
next
  case False
  then obtain sims where "collect (\<lambda>sim_idx. bind (lookup (ib_idx_to_movie m) sim_idx)
                      (\<lambda>sim_movie_id.
                         Inr (Some (info.extend (get_movie_info (ib_movies_df m) sim_movie_id)
                                      (similar.fields (sims ! sim_idx))))))
            (take n (argsort_desc sims)) = Inr out"
    using assms by (auto simp: ib_get_similar_items_def bind_def nth_row_def split: if_splits)
  from collect_length [OF this] show ?thesis
    by simp
qed

text \<open>
  Claim C3 says that the get-similar operation never returns the query movie and returns at
  most \<open>n\<close> entries, and all the other movies when there are fewer than \<open>n\<close> of them.
  \<^verbatim>\<open>ContentBasedModel.get_similar_movies\<close> skips the query movie in its loop;
  \<^verbatim>\<open>ItemBasedModel.get_similar_items\<close> has no such test and takes the first \<open>n\<close> indices
  of the sorted row, among them the index of the query movie, whose similarity is the zero
  of the diagonal. On the scenario of the specification (two movies, \<^verbatim>\<open>min_ratings=1\<close>),
  \<^verbatim>\<open>get_similar_items(10, n=10)\<close> returns the movies 11 and 10: the query movie is in the
  result.
\<close>

theorem item_similar_contains_query_movie:
  "map_sum id (map movieId) (ib_get_similar_items item_example 10 10) = Inr [11, 10]"
  by (simp add: ib_get_similar_items_def item_example_fields nth_row_def bind_def
      argsort_desc_def argsort_def lookup_def get_movie_info_def info.defs similar.defs)

text \<open>The example passes the guard of the method: the model is fitted and knows movie 10.\<close>

theorem item_similar_contains_query_movie_witness:
  "ib_is_fitted item_example \<and> ib_movie_to_idx item_example 10 = Some 0
   \<and> map_sum id (map movieId) (ib_get_similar_items item_example 10 10) = Inr [11, 10]"
  using item_similar_contains_query_movie by (simp add: item_example_fields)

section \<open>Fitting an instance a second time\<close>

text \<open>
  Claim C9 says that a second \<^verbatim>\<open>fit\<close> replaces the whole state, so that the instance
  answers like a new instance fitted on the same data. \<^verbatim>\<open>fit\<close> assigns the arrays anew
  but writes into the dictionaries \<^verbatim>\<open>movie_id_to_idx\<close> and \<^verbatim>\<open>idx_to_movie_id\<close> that the
  instance already holds, so the identifiers of the earlier catalog stay in the index. A
  content-based model fitted on the movies 1 and 2 and then on the movies 3 and 4 answers
  \<^verbatim>\<open>get_similar_movies(1, n=10)\<close> with the movies 3 and 4; a new instance fitted on the
  movies 3 and 4 answers with the empty list.
\<close>

theorem refit_keeps_old_index_entries:
  "cb_get_similar_movies refitted_content 1 10 None =
     Inr [\<lparr>movieId = 3, title = ''C'', genres = [], avgRating = 0, similarity = 1\<rparr>,
          \<lparr>movieId = 4, title = ''D'', genres = [], avgRating = 0, similarity = 0\<rparr>]
   \<and> cb_get_similar_movies fresh_content 1 10 None = Inr []"
  by (simp add: cb_get_similar_movies_def refitted_content_fields fresh_content_fields
      nth_row_def bind_def lookup_def or_empty_def argsort_desc_def argsort_def catalog_def)

text \<open>
  Both instances are fitted; the index of the refitted one still holds movie 1, the index
  of the new one does not.
\<close>

theorem refit_keeps_old_index_entries_witness:
  "cb_is_fitted refitted_content \<and> cb_is_fitted fresh_content
   \<and> movie_id_to_idx refitted_content 1 = Some 0 \<and> movie_id_to_idx fresh_content 1 = None
   \<and> cb_get_similar_movies refitted_content 1 10 None =
       Inr [\<lparr>movieId = 3, title = ''C'', genres = [], avgRating = 0, similarity = 1\<rparr>,
            \<lparr>movieId = 4, title = ''D'', genres = [], avgRating = 0, similarity = 0\<rparr>]
   \<and> cb_get_similar_movies fresh_content 1 10 None = Inr []"
  using refit_keeps_old_index_entries
  by (simp add: refitted_content_fields fresh_content_fields)

section \<open>Scores of movies without accumulated weight\<close>



section \<open>The parameter \<open>min_common\<close>\<close>

text \<open>
  Claim C7 says that \<^verbatim>\<open>min_common\<close> filters: a pair of users with fewer co-rated items has
  no influence on predictions, and two models that differ in \<^verbatim>\<open>min_common\<close> only can answer
  differently. The constructor stores the parameter and nothing reads it. The users 1 and
  2 of the example have one co-rated movie; for every value \<open>c\<close> of \<^verbatim>\<open>min_common\<close>, the
  prediction for user 1 and movie 12 is 1.0, the mean 3.0 of user 1 plus the deviation -2.0
  of user 2, the only neighbour.
\<close>

theorem min_common_is_not_read:
  "ub_predict_rating (ub_fit (ub_init 20 c) min_common_ratings None) 1 12 = Inr (Some 1)"
  by (simp add: ub_predict_rating_def ub_predict_known_def min_common_fields get_column_def
      bind_def nth_row_def where_positive_def top_k_def weighted_average_def clip_def)

text \<open>
  With \<^verbatim>\<open>min_common=3\<close>, the value of the training script: the model is fitted and knows
  user 1 and movie 12, and the similarity of the users 1 and 2 is 1/2.
\<close>

theorem min_common_is_not_read_witness:
  "ub_is_fitted (ub_fit (ub_init 20 3) min_common_ratings None)
   \<and> ub_user_to_idx (ub_fit (ub_init 20 3) min_common_ratings None) 1 = Some 0
   \<and> ub_movie_to_idx (ub_fit (ub_init 20 3) min_common_ratings None) 12 = Some 2
   \<and> user_similarity (ub_fit (ub_init 20 3) min_common_ratings None) ! 0 ! 1 = 1 / 2
   \<and> ub_predict_rating (ub_fit (ub_init 20 3) min_common_ratings None) 1 12 = Inr (Some 1)"
  using min_common_is_not_read [of 3] by (simp add: min_common_fields)

section \<open>The range of predictions\<close>

text \<open>
  Where the range does hold (in exact arithmetic): the item-based prediction and every
  number that the hybrid model returns are clipped; the content-based prediction is an
  average of the user's ratings with positive weights, so it lies in the range of those
  ratings. The hybrid model returns NaN only when the weights of the sub-models that have
  predicted sum to zero.
\<close>

lemma clip_range: "0.5 \<le> clip x 0.5 5.0 \<and> clip x 0.5 5.0 \<le> 5"
  by (simp add: clip_def)

lemma ib_predict_rating_range:
  "ib_predict_rating m user_id movie_id = Inr (Some x) \<Longrightarrow> 0.5 \<le> x \<and> x \<le> 5"
  using clip_range
  by (auto simp: ib_predict_rating_def bind_def nth_row_def Let_def
      split: if_splits option.splits)

lemma hy_predict_rating_range:
  "hy_predict_rating m user_id movie_id rated = Inr (Some (Num x)) \<Longrightarrow> 0.5 \<le> x \<and> x \<le> 5"
  using clip_range
  by (auto simp: hy_predict_rating_def bind_def Let_def split: if_splits sum.splits)

lemma hy_predict_rating_number:
  assumes "hy_predict_rating m user_id movie_id rated = Inr (Some NaN)"
  shows "\<exists>collected. hy_collect_predictions m user_id movie_id rated = Inr collected
           \<and> collected \<noteq> [] \<and> sum_list (map snd collected) = 0"
  using assms
  by (auto simp: hy_predict_rating_def bind_def Let_def split: if_splits sum.splits)

lemma cb_predict_loop_range:
  assumes "cb_predict_loop m movie_idx rated (ws, ss) = Inr (ws', ss')"
    and "\<forall>(mid, r) \<in> set rated. 0.5 \<le> r \<and> r \<le> 5"
    and "0.5 * ss \<le> ws" and "ws \<le> 5 * ss" and "0 \<le> ss"
  shows "0.5 * ss' \<le> ws' \<and> ws' \<le> 5 * ss' \<and> 0 \<le> ss'"
  using assms
proof (induction rated arbitrary: ws ss)
  case Nil
  then show ?case by simp
next
  case (Cons p rated)
  obtain mid r where p: "p = (mid, r)"
    by (cases p)
  have r: "0.5 \<le> r" "r \<le> 5"
    using Cons.prems(2) p by auto
  have rest: "\<forall>(mid, r) \<in> set rated. 0.5 \<le> r \<and> r \<le> 5"
    using Cons.prems(2) by simp
  show ?case
  proof (cases "movie_id_to_idx m mid")
    case None
    then show ?thesis
      using Cons.prems Cons.IH [OF _ rest] p by simp
  next
    case (Some rated_idx)
    then obtain row sim where row: "nth_row (similarity_matrix m) movie_idx = Inr row"
      and sim: "nth_row row rated_idx = Inr sim"
      using Cons.prems(1) p by (auto simp: bind_def split: sum.splits)
    show ?thesis
    proof (cases "sim > 0")
      case True
      then have step: "cb_predict_loop m movie_idx rated (ws + sim * r, ss + sim) = Inr (ws', ss')"
        using Cons.prems(1) p Some row sim by (simp add: bind_def)
      define t where "t = sim * r"
      have "sim * 0.5 \<le> sim * r" "sim * r \<le> sim * 5"
        using True r by (simp_all only: mult_le_cancel_left_pos)
      then have "0.5 * sim \<le> t" "t \<le> 5 * sim"
        by (simp_all add: t_def)
      then have "0.5 * (ss + sim) \<le> ws + t" "ws + t \<le> 5 * (ss + sim)" "0 \<le> ss + sim"
        using Cons.prems(3,4,5) True by simp_all
      then have "0.5 * (ss + sim) \<le> ws + sim * r" "ws + sim * r \<le> 5 * (ss + sim)"
        "0 \<le> ss + sim"
        by (simp_all add: t_def)
      from Cons.IH [OF step rest this] show ?thesis .
    next
      case False
      then have "cb_predict_loop m movie_idx rated (ws, ss) = Inr (ws', ss')"
        using Cons.prems(1) p Some row sim by (simp add: bind_def)
      from Cons.IH [OF this rest Cons.prems(3,4,5)] show ?thesis .
    qed
  qed
qed

lemma cb_predict_rating_range:
  assumes "cb_predict_rating m user_id movie_id (Some rated) = Inr (Some x)"
    and "\<forall>(mid, r) \<in> set rated. 0.5 \<le> r \<and> r \<le> 5"
  shows "0.5 \<le> x \<and> x \<le> 5"
proof -
  obtain ws ss where loop: "cb_predict_loop m (the (movie_id_to_idx m movie_id)) rated (0, 0) = Inr (ws, ss)"
    and ss: "ss > 0" and x: "x = ws / ss"
    using assms(1)
    by (auto simp: cb_predict_rating_def bind_def split: if_splits sum.splits)
  have "0.5 * ss \<le> ws \<and> ws \<le> 5 * ss \<and> 0 \<le> ss"
    using cb_predict_loop_range [OF loop assms(2)] by simp
  then show ?thesis
    using ss x by (simp add: pos_le_divide_eq pos_divide_le_eq)
qed

text \<open>
  The user-based prediction is clipped or is the mean of the user; the mean lies in the
  range when every entry of the rating matrix is zero (no rating) or a rating of the range,
  which is the case when the ratings have one row for a pair of user and movie.
\<close>

lemma mean_of_ratings_range:
  assumes "\<forall>x \<in> set row. x = 0 \<or> (0.5 \<le> x \<and> x \<le> (5::real))"
  shows "0.5 * real (length (filter (\<lambda>x. x > 0) row)) \<le> sum_list row
       \<and> sum_list row \<le> 5 * real (length (filter (\<lambda>x. x > 0) row))"
  using assms by (induction row) auto

lemma compute_user_means_range:
  assumes "\<forall>row \<in> set M. \<forall>x \<in> set row. x = 0 \<or> (0.5 \<le> x \<and> x \<le> 5)"
    and "u < length M"
  shows "0.5 \<le> compute_user_means M ! u \<and> compute_user_means M ! u \<le> 5"
proof -
  let ?row = "M ! u"
  let ?n = "length (filter (\<lambda>x. x > 0) ?row)"
  have "\<forall>x \<in> set ?row. x = 0 \<or> (0.5 \<le> x \<and> x \<le> 5)"
    using assms nth_mem by blast
  from mean_of_ratings_range [OF this]
  have "0.5 * real ?n \<le> sum_list ?row" "sum_list ?row \<le> 5 * real ?n"
    by simp_all
  then show ?thesis
    using assms(2)
    by (simp add: compute_user_means_def Let_def pos_le_divide_eq pos_divide_le_eq)
qed

lemma ub_predict_rating_range:
  assumes "ub_predict_rating m user_id movie_id = Inr (Some x)"
    and "user_means m = compute_user_means (ub_user_item_matrix m)"
    and "\<forall>row \<in> set (ub_user_item_matrix m). \<forall>x \<in> set row. x = 0 \<or> (0.5 \<le> x \<and> x \<le> 5)"
  shows "0.5 \<le> x \<and> x \<le> 5"
proof -
  have mean: "0.5 \<le> user_means m ! u \<and> user_means m ! u \<le> 5" if "u < length (user_means m)" for u
    using compute_user_means_range [OF assms(3), of u] that assms(2) by simp
  have clipped: "0.5 \<le> clip y 0.5 5.0 \<and> clip y 0.5 5.0 \<le> 5" for y
    by (simp add: clip_def)
  obtain u j where known: "ub_predict_known m u j = Inr (Some x)"
    using assms(1) by (auto simp: ub_predict_rating_def split: if_splits)
  then obtain column where col: "get_column (ub_user_item_matrix m) j = Inr column"
    by (auto simp: ub_predict_known_def bind_def split: sum.splits)
  show ?thesis
  proof (cases "length (where_positive column) = 0")
    case True
    then have "u < length (user_means m)" "x = user_means m ! u"
      using known col by (auto simp: ub_predict_known_def bind_def nth_row_def split: if_splits)
    then show ?thesis
      using mean by simp
  next
    case False
    then obtain sim_row where row: "nth_row (user_similarity m) u = Inr sim_row"
      using known col by (auto simp: ub_predict_known_def bind_def Let_def split: sum.splits)
    define ns where "ns = filter (\<lambda>(i, s). s > 0)
        (top_k (ub_k m) (where_positive column) (map (\<lambda>i. sim_row ! i) (where_positive column)))"
    show ?thesis
    proof (cases "ns = []")
      case True
      then have "u < length (user_means m)" "x = user_means m ! u"
        using known col row False
        by (auto simp: ub_predict_known_def bind_def nth_row_def Let_def ns_def split: if_splits)
      then show ?thesis
        using mean by simp
    next
      case nonempty: False
      then have "\<exists>y. x = clip y 0.5 5.0"
        using known col row False
        by (auto simp: ub_predict_known_def bind_def Let_def ns_def)
      then show ?thesis
        using clipped by auto
    qed
  qed
qed



section \<open>The ranking of the hybrid model\<close>



lemma first_seen_Nil [simp]: "first_seen [] = []"
  by (simp add: first_seen_def)

lemma last_option_simps [simp]:
  "last_option [] = None" "last_option (xs @ [x]) = Some x"
  by (simp_all add: last_option_def)

lemma t_simps [simp]: "t_rec (s, w, r) = r" "t_id (s, w, r) = movieId r"
  by (simp_all add: t_rec_def t_id_def)












lemma latest_tag_same: "latest src (tag src w recs) mid = opinion recs mid"
  by (simp add: latest_def opinion_def tag_def filter_map comp_def option.map_comp
      last_option_def last_map)



lemma last_option_append:
  "last_option (xs @ ys) = (if ys = [] then last_option xs else last_option ys)"
  by (simp add: last_option_def)

lemma tag_Nil_iff [simp]: "tag src w recs = [] \<longleftrightarrow> recs = []"
  by (simp add: tag_def)









lemma sort_desc_stable: "filter (\<lambda>x. f x = v) (sort_desc f xs) = filter (\<lambda>x. f x = v) xs"
  using sort_key_stable [of "\<lambda>x. - f x" "- v" xs] by (simp add: sort_desc_def)



section \<open>The caller's exclude set\<close>






section \<open>The prediction of the user-based model\<close>














text \<open>
  The neighbours, said the other way round: the first \<open>k\<close> of the raters with positive
  similarity, in descending order of similarity.
\<close>

lemma filter_take_sorted_desc:
  assumes "sorted_wrt (\<lambda>a b. snd a \<ge> snd b) L"
  shows "filter (\<lambda>(i, s). s > (0::real)) (take k L) = take k (filter (\<lambda>(i, s). s > 0) L)"
  using assms
proof (induction L arbitrary: k)
  case Nil
  then show ?case by simp
next
  case (Cons x xs)
  show ?case
  proof (cases k)
    case 0
    then show ?thesis by simp
  next
    case (Suc k')
    show ?thesis
    proof (cases "snd x > 0")
      case True
      then show ?thesis
        using Cons Suc by (simp add: split_def)
    next
      case False
      then have "\<forall>y \<in> set xs. \<not> snd y > 0"
        using Cons.prems by fastforce
      moreover from this have "\<forall>y \<in> set (take k' xs). \<not> snd y > 0"
        by (meson in_set_takeD)
      ultimately have "filter (\<lambda>(i, s). s > 0) xs = []"
        "filter (\<lambda>(i, s). s > 0) (take k' xs) = []"
        by (simp_all add: filter_empty_conv split_def)
      then show ?thesis
        using False Suc by (simp add: split_def)
    qed
  qed
qed

lemma rev_sort_key_desc: "sorted_wrt (\<lambda>a b. f a \<ge> f b) (rev (sort_key f xs))"
proof -
  have "sorted (map f (sort_key f xs))"
    by (rule sorted_sort_key)
  then have "sorted_wrt (\<lambda>a b. f a \<le> f b) (sort_key f xs)"
    by (simp add: sorted_map)
  then show ?thesis
    by (simp add: sorted_wrt_rev)
qed

lemma ub_neighbors_most_similar:
  "ub_neighbors m u j =
     take (ub_k m)
       (filter (\<lambda>(i, s). s > 0)
          (rev (sort_key snd (map (\<lambda>i. (i, user_similarity m ! u ! i)) (ub_raters m j)))))"
  unfolding ub_neighbors_def
  by (rule filter_take_sorted_desc) (rule rev_sort_key_desc)



section \<open>The similarity matrices\<close>

lemma dot_Nil [simp]: "dot [] ys = 0" "dot xs [] = 0"
  by (simp_all add: dot_def)

lemma dot_Cons [simp]: "dot (x # xs) (y # ys) = x * y + dot xs ys"
  by (simp add: dot_def)











lemma length_cosine_similarity [simp]: "length (cosine_similarity X) = length X"
  by (simp add: cosine_similarity_def)












end
